theory Spec2Isabelle
  imports Complex_Main "HOL-Library.Sublist" "HOL-Library.Log_Nat"
begin

section \<open>Python strings\<close>

text \<open>
  A Python \<open>str\<close> is modelled as a \<open>string\<close>: a list of characters, each read as one code
  point below 256. The functions of this section are the \<open>str\<close> methods the agents call,
  restricted to that range.
\<close>

definition is_upper_char :: "char \<Rightarrow> bool" where
  "is_upper_char c =
     (let n = (of_char c :: nat)
      in (65 \<le> n \<and> n \<le> 90) \<or> (192 \<le> n \<and> n \<le> 222 \<and> n \<noteq> 215))"

definition lower_char :: "char \<Rightarrow> char" where
  "lower_char c = (if is_upper_char c then char_of ((of_char c :: nat) + 32) else c)"

definition py_lower :: "string \<Rightarrow> string" where
  "py_lower s = map lower_char s"

definition is_space_char :: "char \<Rightarrow> bool" where
  "is_space_char c =
     (let n = (of_char c :: nat)
      in (9 \<le> n \<and> n \<le> 13) \<or> (28 \<le> n \<and> n \<le> 32) \<or> n = 133 \<or> n = 160)"

definition py_strip :: "string \<Rightarrow> string" where
  "py_strip s = rev (dropWhile is_space_char (rev (dropWhile is_space_char s)))"

text \<open>\<open>term in s\<close> for strings: \<open>term\<close> occurs in \<open>s\<close> as a contiguous run.\<close>

fun py_in :: "string \<Rightarrow> string \<Rightarrow> bool" where
  "py_in t [] = (t = [])"
| "py_in t (c # cs) = (prefix t (c # cs) \<or> py_in t cs)"

definition startswith :: "string \<Rightarrow> string \<Rightarrow> bool" where
  "startswith s p = prefix p s"

text \<open>\<open>s.find(c, start)\<close> for a one-character \<open>c\<close> and \<open>start \<ge> 0\<close>: the least index
  \<open>\<ge> start\<close> holding \<open>c\<close>, or \<open>-1\<close>.\<close>

fun find_from :: "char \<Rightarrow> string \<Rightarrow> nat \<Rightarrow> int" where
  "find_from c [] i = -1"
| "find_from c (x # xs) i = (if x = c then int i else find_from c xs (Suc i))"

definition py_find :: "string \<Rightarrow> char \<Rightarrow> nat \<Rightarrow> int" where
  "py_find s c start = find_from c (drop start s) start"

text \<open>\<open>s.rfind(c)\<close>: the greatest index holding \<open>c\<close>, or \<open>-1\<close>.\<close>

definition py_rfind :: "string \<Rightarrow> char \<Rightarrow> int" where
  "py_rfind s c =
     (case find_from c (rev s) 0 of
        r \<Rightarrow> if r < 0 then -1 else int (length s) - 1 - r)"

text \<open>\<open>s[a:b]\<close> for \<open>a, b \<ge> 0\<close>.\<close>

definition py_slice :: "'a list \<Rightarrow> nat \<Rightarrow> nat \<Rightarrow> 'a list" where
  "py_slice s a b = drop a (take b s)"

text \<open>\<open>xs[:n]\<close> for any integer \<open>n\<close>: a negative \<open>n\<close> counts from the end.\<close>

definition py_take :: "int \<Rightarrow> 'a list \<Rightarrow> 'a list" where
  "py_take n xs = (if 0 \<le> n then take (nat n) xs else take (length xs - nat (- n)) xs)"

text \<open>\<open>s.split(c)\<close> for a one-character separator: never empty, \<open>''''\<close> splits to
  \<open>['''']\<close>.\<close>

fun py_split :: "char \<Rightarrow> string \<Rightarrow> string list" where
  "py_split c [] = [[]]"
| "py_split c (x # xs) =
     (if x = c then [] # py_split c xs
      else (case py_split c xs of
              [] \<Rightarrow> [[x]]
            | w # ws \<Rightarrow> (x # w) # ws))"

fun py_join :: "string \<Rightarrow> string list \<Rightarrow> string" where
  "py_join sep [] = []"
| "py_join sep [x] = x"
| "py_join sep (x # y # ys) = x @ sep @ py_join sep (y # ys)"

text \<open>\<open>str(n)\<close> for a natural number: its decimal digits.\<close>

fun str_nat :: "nat \<Rightarrow> string" where
  "str_nat n =
     (if n < 10 then [char_of (48 + n)]
      else str_nat (n div 10) @ [char_of (48 + n mod 10)])"

declare str_nat.simps [simp del]

section \<open>Data model\<close>

text \<open>
  A \<open>float\<close> is the rational it denotes. A literal that the code only stores and compares
  is read as the decimal it is written as. Where the code does arithmetic on floats (the
  relevance score), every literal and every operation is rounded to the nearest double,
  ties to even: \<open>fl x\<close> is that double, for \<open>x\<close> in the range of normal doubles.
\<close>

definition round_half_even :: "rat \<Rightarrow> int" where
  "round_half_even m =
     (let f = \<lfloor>m\<rfloor>; d = m - of_int f
      in if d < 1 / 2 then f
         else if 1 / 2 < d then f + 1
         else if even f then f else f + 1)"

text \<open>\<open>ilog2 a\<close> is the \<open>k\<close> with \<open>2 powi k \<le> a < 2 powi (k + 1)\<close>, for \<open>a > 0\<close>.\<close>

definition ilog2 :: "rat \<Rightarrow> int" where
  "ilog2 a =
     (let (p, q) = quotient_of a; k = bitlen p - bitlen q
      in if 2 powi k \<le> a then k else k - 1)"

definition fl :: "rat \<Rightarrow> rat" where
  "fl x =
     (if x = 0 then 0
      else (let e = ilog2 \<bar>x\<bar> - 52
            in sgn x * of_int (round_half_even (\<bar>x\<bar> / 2 powi e)) * 2 powi e))"

text \<open>The models of \<open>models/response.py\<close> and \<open>models/query.py\<close>.\<close>

record document =
  title :: string
  url :: string
  content :: string
  source :: string
  region :: "string option"
  document_type :: "string option"
  relevance_score :: "rat option"

record extracted_clause =
  clause_text :: string
  clause_type :: string
  topic :: string
  jurisdiction :: string
  document_source :: string
  confidence_score :: "rat option"
  key_entities :: "string list option"

record comparison =
  cmp_topic :: string
  similarities :: "string list"
  differences :: "string list"
  gaps :: "string list"
  jurisdictions_compared :: "string list"
  comparison_score :: "rat option"

record summary =
  executive_summary :: string
  key_findings :: "string list"
  recommendations :: "string list"
  methodology :: string
  limitations :: "string list"

datatype query_status =
  PENDING | SEARCHING | EXTRACTING | COMPARING | SUMMARIZING | COMPLETED | FAILED

record research_query =
  rq_query :: string
  rq_regions :: "string list option"
  rq_document_types :: "string list option"
  rq_max_documents :: "int option"

text \<open>An exception, with \<open>str(e)\<close> its message.\<close>

datatype exn = Exception string

fun str_exn :: "exn \<Rightarrow> string" where
  "str_exn (Exception m) = m"

section \<open>Decoded JSON and model validation\<close>

text \<open>
  \<open>json.loads\<close> and the validation that the response models run on their fields belong to
  libraries outside the repository; they are parameters of the agents. \<open>json_loads\<close> gives
  \<open>None\<close> where the library raises \<open>JSONDecodeError\<close>; \<open>val_str\<close> and \<open>val_float\<close>
  give \<open>None\<close> where a \<open>str\<close> or \<open>float\<close> field rejects the value. An object is the
  association list of its keys, each key once. The wording of the libraries' exceptions is
  theirs as well: \<open>error_text\<close> is the message of the exception raised on a decoded value
  that a model rejects or that is used as a dictionary or a list without being one, and
  \<open>thread_error\<close> is the message with which a graph compiled with a checkpointer refuses
  a call that names no thread.
\<close>

datatype json =
  JNull | JBool bool | JNum rat | JStr string | JArr "json list" | JObj "(string \<times> json) list"

record pylib =
  json_loads :: "string \<Rightarrow> json option"
  val_str :: "json \<Rightarrow> string option"
  val_float :: "json \<Rightarrow> rat option"
  error_text :: "json \<Rightarrow> string"
  thread_error :: string

text \<open>\<open>d.get(key, default)\<close>.\<close>

definition dict_get :: "(string \<times> json) list \<Rightarrow> string \<Rightarrow> json \<Rightarrow> json" where
  "dict_get d k dflt = (case map_of d k of None \<Rightarrow> dflt | Some v \<Rightarrow> v)"

text \<open>A field of type \<open>List[str]\<close>, \<open>Optional[float]\<close>, \<open>Optional[List[str]]\<close>:
  \<open>None\<close> is the validation error.\<close>

fun all_some :: "'a option list \<Rightarrow> 'a list option" where
  "all_some [] = Some []"
| "all_some (None # xs) = None"
| "all_some (Some x # xs) = (case all_some xs of None \<Rightarrow> None | Some ys \<Rightarrow> Some (x # ys))"

definition val_str_list :: "pylib \<Rightarrow> json \<Rightarrow> string list option" where
  "val_str_list L j = (case j of JArr xs \<Rightarrow> all_some (map (val_str L) xs) | _ \<Rightarrow> None)"

definition val_opt_float :: "pylib \<Rightarrow> json \<Rightarrow> rat option option" where
  "val_opt_float L j =
     (case j of JNull \<Rightarrow> Some None
      | _ \<Rightarrow> (case val_float L j of None \<Rightarrow> None | Some v \<Rightarrow> Some (Some v)))"

definition val_opt_str_list :: "pylib \<Rightarrow> json \<Rightarrow> string list option option" where
  "val_opt_str_list L j =
     (case j of JNull \<Rightarrow> Some None
      | _ \<Rightarrow> (case val_str_list L j of None \<Rightarrow> None | Some v \<Rightarrow> Some (Some v)))"

text \<open>An insertion-ordered \<open>dict\<close> is an association list with distinct keys:
  \<open>d[k] = f(d.get(k, dflt))\<close> keeps the place of an old key and appends a new one.\<close>

fun dict_upd :: "'k \<Rightarrow> ('v \<Rightarrow> 'v) \<Rightarrow> 'v \<Rightarrow> ('k \<times> 'v) list \<Rightarrow> ('k \<times> 'v) list" where
  "dict_upd k f dflt [] = [(k, f dflt)]"
| "dict_upd k f dflt ((k', v) # d) =
     (if k' = k then (k', f v) # d else (k', v) # dict_upd k f dflt d)"

section \<open>External collaborators\<close>

text \<open>
  The search provider and the text-generation provider are opaque. Each call is a function
  of the arguments from which the agent builds its search query or prompt, so a response
  fixed by the query or prompt is a response fixed by these arguments. \<open>Inl\<close> is an
  exception raised before a response is obtained (network failure, timeout, non-success
  status). The search provider answers \<open>None\<close> for a response without a
  \<open>results\<close> entry.
\<close>

record raw_result =
  r_title :: "string option"
  r_url :: "string option"
  r_content :: "string option"
  r_source :: "string option"
  r_score :: "rat option"
  r_published_date :: bool

type_synonym jurisdiction_clauses = "(string \<times> extracted_clause list) list"

record providers =
  tavily_search ::
    "string \<Rightarrow> string list option \<Rightarrow> string list option \<Rightarrow> exn + raw_result list option"
  ollama_extract :: "document \<Rightarrow> exn + string"
  ollama_compare :: "string \<Rightarrow> jurisdiction_clauses \<Rightarrow> exn + string"
  ollama_summarize ::
    "string \<Rightarrow> document list \<Rightarrow> extracted_clause list \<Rightarrow> comparison list \<Rightarrow> exn + string"

section \<open>The Compare agent\<close>

definition group_clauses :: "extracted_clause list \<Rightarrow> (string \<times> jurisdiction_clauses) list" where
  "group_clauses cls =
     foldl (\<lambda>grouped clause.
              dict_upd (py_lower (topic clause))
                (dict_upd (jurisdiction clause) (\<lambda>l. l @ [clause]) []) [] grouped)
       [] cls"

definition create_fallback_comparison :: "string \<Rightarrow> jurisdiction_clauses \<Rightarrow> comparison" where
  "create_fallback_comparison tp jc =
     \<lparr> cmp_topic = tp,
       similarities = [''All jurisdictions have some form of '' @ tp @ '' regulation''],
       differences =
         [''Different jurisdictions approach '' @ tp @ '' with varying levels of detail''],
       gaps = [''Some jurisdictions may lack comprehensive '' @ tp @ '' frameworks''],
       jurisdictions_compared = map fst jc,
       comparison_score = Some (1 / 2) \<rparr>"

text \<open>Only \<open>JSONDecodeError\<close> is caught here; a decoded value that the \<open>Comparison\<close>
  model rejects raises out of the function.\<close>

definition parse_comparison_response ::
  "pylib \<Rightarrow> string \<Rightarrow> string \<Rightarrow> jurisdiction_clauses \<Rightarrow> exn + comparison" where
  "parse_comparison_response L response tp jc =
     (let json_start = py_find response (CHR ''{'') 0;
          json_end = py_rfind response (CHR ''}'') + 1
      in if json_start = -1 \<or> json_end = 0 then Inr (create_fallback_comparison tp jc)
         else (case json_loads L (py_slice response (nat json_start) (nat json_end)) of
                 None \<Rightarrow> Inr (create_fallback_comparison tp jc)
               | Some (JObj d) \<Rightarrow>
                   (case (val_str_list L (dict_get d ''similarities'' (JArr [])),
                          val_str_list L (dict_get d ''differences'' (JArr [])),
                          val_str_list L (dict_get d ''gaps'' (JArr [])),
                          val_opt_float L (dict_get d ''comparison_score'' (JNum (1 / 2)))) of
                      (Some sm, Some df, Some gp, Some sc) \<Rightarrow>
                        Inr \<lparr> cmp_topic = tp, similarities = sm, differences = df,
                              gaps = gp, jurisdictions_compared = map fst jc,
                              comparison_score = sc \<rparr>
                    | _ \<Rightarrow> Inl (Exception (error_text L (JObj d))))
               | Some j \<Rightarrow> Inl (Exception (error_text L j))))"

definition compare_topic ::
  "providers \<Rightarrow> pylib \<Rightarrow> string \<Rightarrow> jurisdiction_clauses \<Rightarrow> comparison option" where
  "compare_topic P L tp jc =
     (case ollama_compare P tp jc of
        Inl e \<Rightarrow> None
      | Inr response \<Rightarrow>
          (case parse_comparison_response L response tp jc of
             Inl e \<Rightarrow> None
           | Inr c \<Rightarrow> Some c))"

fun compare_loop ::
  "providers \<Rightarrow> pylib \<Rightarrow> (string \<times> jurisdiction_clauses) list \<Rightarrow> comparison list" where
  "compare_loop P L [] = []"
| "compare_loop P L ((tp, jc) # rest) =
     (if length jc > 1
      then (case compare_topic P L tp jc of
              None \<Rightarrow> compare_loop P L rest
            | Some c \<Rightarrow> c # compare_loop P L rest)
      else compare_loop P L rest)"

definition compare_clauses ::
  "providers \<Rightarrow> pylib \<Rightarrow> extracted_clause list \<Rightarrow> exn + comparison list" where
  "compare_clauses P L cls = Inr (compare_loop P L (group_clauses cls))"

text \<open>
  \<open>identify_regulatory_gaps\<close> walks a Python \<open>set\<close> of topics, whose iteration order
  is fixed by the hashes of its elements: \<open>h\<close> stands for that order.
\<close>

definition jurisdiction_topics :: "extracted_clause list \<Rightarrow> (string \<times> string set) list" where
  "jurisdiction_topics cls =
     foldl (\<lambda>d clause. dict_upd (jurisdiction clause) (insert (py_lower (topic clause))) {} d)
       [] cls"

definition topics_at :: "(string \<times> string set) list \<Rightarrow> string \<Rightarrow> string set" where
  "topics_at jt j = (case map_of jt j of None \<Rightarrow> {} | Some s \<Rightarrow> s)"

definition gap_message :: "string \<Rightarrow> string list \<Rightarrow> string" where
  "gap_message tp missing =
     ''Topic '' @ [CHR 0x27] @ tp @ [CHR 0x27] @ '' is missing in jurisdictions: ''
       @ py_join '', '' missing"

definition gaps_for_topic :: "(string \<times> string set) list \<Rightarrow> string \<Rightarrow> string list" where
  "gaps_for_topic jt tp =
     (let jurisdictions = map fst jt;
          jurisdictions_with_topic = filter (\<lambda>j. tp \<in> topics_at jt j) jurisdictions
      in if length jurisdictions_with_topic < length jurisdictions
         then [gap_message tp
                 (filter (\<lambda>j. j \<notin> set jurisdictions_with_topic) jurisdictions)]
         else [])"

definition identify_regulatory_gaps ::
  "(string \<Rightarrow> nat) \<Rightarrow> extracted_clause list \<Rightarrow> string list" where
  "identify_regulatory_gaps h cls =
     (let jt = jurisdiction_topics cls;
          all_topics = sort_key h (remdups (map (\<lambda>c. py_lower (topic c)) cls))
      in concat (map (gaps_for_topic jt) all_topics))"

section \<open>The Extract agent\<close>

text \<open>\<open>document.region or "Unknown"\<close>.\<close>

definition region_or_unknown :: "document \<Rightarrow> string" where
  "region_or_unknown doc =
     (case region doc of None \<Rightarrow> ''Unknown'' | Some r \<Rightarrow> if r = [] then ''Unknown'' else r)"

text \<open>One item of the decoded array: \<open>None\<close> is an exception of the item, which the
  loop's own \<open>except\<close> turns into \<open>continue\<close>.\<close>

definition clause_of_item :: "pylib \<Rightarrow> document \<Rightarrow> json \<Rightarrow> extracted_clause option" where
  "clause_of_item L doc item =
     (case item of
        JObj d \<Rightarrow>
          (case (val_str L (dict_get d ''clause_text'' (JStr [])),
                 val_str L (dict_get d ''clause_type'' (JStr ''other'')),
                 val_str L (dict_get d ''topic'' (JStr ''other'')),
                 val_opt_float L (dict_get d ''confidence'' (JNum (4 / 5))),
                 val_opt_str_list L (dict_get d ''key_entities'' (JArr []))) of
             (Some txt, Some ty, Some tp, Some conf, Some ents) \<Rightarrow>
               Some \<lparr> clause_text = txt, clause_type = ty, topic = tp,
                      jurisdiction = region_or_unknown doc, document_source = title doc,
                      confidence_score = conf, key_entities = ents \<rparr>
           | _ \<Rightarrow> None)
      | _ \<Rightarrow> None)"

fun items_loop :: "pylib \<Rightarrow> document \<Rightarrow> json list \<Rightarrow> extracted_clause list" where
  "items_loop L doc [] = []"
| "items_loop L doc (item # rest) =
     (case clause_of_item L doc item of
        None \<Rightarrow> items_loop L doc rest
      | Some clause \<Rightarrow>
          (if length (py_strip (clause_text clause)) > 10
           then clause # items_loop L doc rest
           else items_loop L doc rest))"

definition fallback_line :: "document \<Rightarrow> string \<Rightarrow> extracted_clause list" where
  "fallback_line doc raw =
     (let line = py_strip raw
      in if startswith line (CHR 0x22 # ''clause_text'' @ [CHR 0x22])
            \<or> startswith line ''clause_text''
         then (let text_start =
                     py_find line (CHR 0x22) (nat (py_find line (CHR 0x22) 0 + 1)) + 1;
                   text_end = py_rfind line (CHR 0x22)
               in if text_start > 0 \<and> text_end > text_start
                  then (let current_clause = py_slice line (nat text_start) (nat text_end)
                        in if length current_clause > 10
                           then [\<lparr> clause_text = current_clause,
                                    clause_type = ''requirement'', topic = ''general'',
                                    jurisdiction = region_or_unknown doc,
                                    document_source = title doc,
                                    confidence_score = Some (3 / 5),
                                    key_entities = None \<rparr>]
                           else [])
                  else [])
         else [])"

definition fallback_extraction :: "string \<Rightarrow> document \<Rightarrow> extracted_clause list" where
  "fallback_extraction response doc =
     concat (map (fallback_line doc) (py_split (CHR 0x0A) response))"

text \<open>Iterating a decoded value that is not an array: the keys of an object and the
  characters of a string are strings, on which \<open>item.get\<close> raises inside the loop; any
  other value is not iterable and raises out of the function.\<close>

definition parse_extraction_response ::
  "pylib \<Rightarrow> string \<Rightarrow> document \<Rightarrow> exn + extracted_clause list" where
  "parse_extraction_response L response doc =
     (let json_start = py_find response (CHR ''['') 0;
          json_end = py_rfind response (CHR '']'') + 1
      in if json_start = -1 \<or> json_end = 0 then Inr []
         else (case json_loads L (py_slice response (nat json_start) (nat json_end)) of
                 None \<Rightarrow> Inr (fallback_extraction response doc)
               | Some (JArr items) \<Rightarrow> Inr (items_loop L doc items)
               | Some (JObj d) \<Rightarrow> Inr []
               | Some (JStr s) \<Rightarrow> Inr []
               | Some j \<Rightarrow> Inl (Exception (error_text L j))))"

definition extract_from_document ::
  "providers \<Rightarrow> pylib \<Rightarrow> document \<Rightarrow> extracted_clause list" where
  "extract_from_document P L doc =
     (case ollama_extract P doc of
        Inl e \<Rightarrow> []
      | Inr response \<Rightarrow>
          (case parse_extraction_response L response doc of
             Inl e \<Rightarrow> []
           | Inr clauses \<Rightarrow> clauses))"

definition extract_clauses ::
  "providers \<Rightarrow> pylib \<Rightarrow> document list \<Rightarrow> exn + extracted_clause list" where
  "extract_clauses P L docs = Inr (concat (map (extract_from_document P L) docs))"

definition clause_valid :: "extracted_clause \<Rightarrow> bool" where
  "clause_valid clause =
     (length (py_strip (clause_text clause)) > 20
      \<and> (case confidence_score clause of
            None \<Rightarrow> False
          | Some v \<Rightarrow> v \<noteq> 0 \<and> v > 1 / 2))"

definition validate_clauses :: "extracted_clause list \<Rightarrow> extracted_clause list" where
  "validate_clauses cls = filter clause_valid cls"

section \<open>The Search agent\<close>

text \<open>\<open>result.get(key, default)\<close> on a raw result.\<close>

definition get_or :: "string option \<Rightarrow> string \<Rightarrow> string" where
  "get_or v dflt = (case v of None \<Rightarrow> dflt | Some x \<Rightarrow> x)"

definition any_term :: "string list \<Rightarrow> string \<Rightarrow> string \<Rightarrow> bool" where
  "any_term terms cnt u = list_ex (\<lambda>t. py_in t cnt \<or> py_in t u) terms"

definition extract_region :: "raw_result \<Rightarrow> string list option \<Rightarrow> string" where
  "extract_region result regions =
     (case regions of
        Some [r] \<Rightarrow> r
      | _ \<Rightarrow>
          (let cnt = py_lower (get_or (r_content result) []);
               u = py_lower (get_or (r_url result) [])
           in if any_term [''european union'', ''eu'', ''europa''] cnt u then ''EU''
              else if any_term [''united states'', ''us'', ''usa'', ''federal''] cnt u
                then ''US''
              else if any_term [''united kingdom'', ''uk'', ''british''] cnt u then ''UK''
              else (case regions of
                      None \<Rightarrow> ''Global''
                    | Some [] \<Rightarrow> ''Unknown''
                    | Some (r # rs) \<Rightarrow> r)))"

definition classify_document_type :: "raw_result \<Rightarrow> string" where
  "classify_document_type result =
     (let cnt = py_lower (get_or (r_content result) []);
          u = py_lower (get_or (r_url result) [])
      in if any_term [''act'', ''regulation'', ''law'', ''legislation''] cnt u
           then ''legislation''
         else if any_term [''policy'', ''framework'', ''guidelines''] cnt u
           then ''policy_framework''
         else if any_term [''white paper'', ''whitepaper'', ''report''] cnt u
           then ''white_paper''
         else ''other'')"

definition calculate_relevance_score :: "raw_result \<Rightarrow> rat" where
  "calculate_relevance_score result =
     (let s0 = (case r_score result of
                  None \<Rightarrow> 0
                | Some v \<Rightarrow> fl (0 + fl (fl v * fl (1 / 2))));
          u = py_lower (get_or (r_url result) []);
          s1 = (if list_ex (\<lambda>d. py_in d u) [''europa.eu'', ''whitehouse.gov'', ''gov.uk'']
                then fl (s0 + fl (3 / 10)) else s0);
          s2 = (if r_published_date result then fl (s1 + fl (1 / 10)) else s1);
          s3 = (if length (get_or (r_content result) []) > 1000
                then fl (s2 + fl (1 / 10)) else s2)
      in min s3 (fl 1))"

definition document_of_result :: "raw_result \<Rightarrow> string list option \<Rightarrow> document" where
  "document_of_result result regions =
     \<lparr> title = get_or (r_title result) ''Untitled'',
       url = get_or (r_url result) [],
       content = get_or (r_content result) [],
       source = get_or (r_source result) ''Unknown'',
       region = Some (extract_region result regions),
       document_type = Some (classify_document_type result),
       relevance_score = Some (calculate_relevance_score result) \<rparr>"

text \<open>\<open>documents.sort(key=..., reverse=True)\<close>: descending and stable.\<close>

definition process_search_results ::
  "raw_result list \<Rightarrow> string list option \<Rightarrow> document list" where
  "process_search_results results regions =
     sort_key (\<lambda>x. - (case relevance_score x of None \<Rightarrow> 0 | Some v \<Rightarrow> v))
       (map (\<lambda>r. document_of_result r regions) results)"

definition perform_search ::
  "providers \<Rightarrow> string \<Rightarrow> string list option \<Rightarrow> string list option
     \<Rightarrow> exn + raw_result list" where
  "perform_search P q regions dtypes =
     (case tavily_search P q regions dtypes of
        Inl e \<Rightarrow> Inl e
      | Inr None \<Rightarrow> Inr []
      | Inr (Some results) \<Rightarrow> Inr results)"

definition search_documents ::
  "providers \<Rightarrow> string \<Rightarrow> string list option \<Rightarrow> string list option
     \<Rightarrow> exn + document list" where
  "search_documents P q regions dtypes =
     (case perform_search P q regions dtypes of
        Inl e \<Rightarrow> Inl e
      | Inr results \<Rightarrow> Inr (process_search_results results regions))"

section \<open>The Summarize agent\<close>

definition create_fallback_summary ::
  "string \<Rightarrow> document list \<Rightarrow> extracted_clause list \<Rightarrow> comparison list \<Rightarrow> summary" where
  "create_fallback_summary q docs cls cmps =
     \<lparr> executive_summary =
         py_strip
           (''\<newline>This research analyzed AI policy documents in response to the query: ''
            @ [CHR 0x22] @ q @ [CHR 0x22] @ ''. \<newline>''
            @ ''The analysis covered '' @ str_nat (length docs)
            @ '' documents and extracted '' @ str_nat (length cls)
            @ '' legal clauses \<newline>''
            @ ''across '' @ str_nat (length cmps)
            @ '' comparative topics. The research provides insights into \<newline>''
            @ ''regulatory approaches across different jurisdictions and identifies key policy differences.\<newline>''),
       key_findings =
         [''Analyzed '' @ str_nat (length docs)
            @ '' policy documents from multiple jurisdictions'',
          ''Extracted '' @ str_nat (length cls)
            @ '' legal clauses covering various regulatory topics'',
          ''Identified '' @ str_nat (length cmps)
            @ '' key areas of regulatory comparison''],
       recommendations =
         [''Consider harmonizing regulatory approaches across jurisdictions'',
          ''Address identified regulatory gaps in policy frameworks'',
          ''Monitor emerging AI policy developments in key jurisdictions''],
       methodology =
         py_strip
           (''\<newline>This research used a multi-agent AI system to:\<newline>''
            @ ''1. Search for relevant AI policy documents using the Tavily API\<newline>''
            @ ''2. Extract key legal clauses using local LLM analysis\<newline>''
            @ ''3. Compare regulatory approaches across jurisdictions\<newline>''
            @ ''4. Generate policy recommendations based on the analysis\<newline>''),
       limitations =
         [''Analysis limited to publicly available documents'',
          ''Language barriers may affect document coverage'',
          ''Rapidly evolving nature of AI policy may affect currency of findings''] \<rparr>"

text \<open>Only \<open>JSONDecodeError\<close> is caught here; a decoded value that the \<open>Summary\<close>
  model rejects raises out of the function.\<close>

definition parse_summary_response ::
  "pylib \<Rightarrow> string \<Rightarrow> string \<Rightarrow> document list \<Rightarrow> extracted_clause list
     \<Rightarrow> comparison list \<Rightarrow> exn + summary" where
  "parse_summary_response L response q docs cls cmps =
     (let json_start = py_find response (CHR ''{'') 0;
          json_end = py_rfind response (CHR ''}'') + 1
      in if json_start = -1 \<or> json_end = 0
         then Inr (create_fallback_summary q docs cls cmps)
         else (case json_loads L (py_slice response (nat json_start) (nat json_end)) of
                 None \<Rightarrow> Inr (create_fallback_summary q docs cls cmps)
               | Some (JObj d) \<Rightarrow>
                   (case (val_str L (dict_get d ''executive_summary'' (JStr [])),
                          val_str_list L (dict_get d ''key_findings'' (JArr [])),
                          val_str_list L (dict_get d ''recommendations'' (JArr [])),
                          val_str L (dict_get d ''methodology'' (JStr [])),
                          val_str_list L (dict_get d ''limitations'' (JArr []))) of
                      (Some es, Some kf, Some rc, Some me, Some li) \<Rightarrow>
                        Inr \<lparr> executive_summary = es, key_findings = kf,
                              recommendations = rc, methodology = me, limitations = li \<rparr>
                    | _ \<Rightarrow> Inl (Exception (error_text L (JObj d))))
               | Some j \<Rightarrow> Inl (Exception (error_text L j))))"

text \<open>\<open>_create_summary_prompt\<close> followed by \<open>_call_ollama\<close>: the prompt prints each
  comparison's score with two decimals, which raises on a comparison without a score, before
  the provider is called.\<close>

definition call_ollama_summary ::
  "providers \<Rightarrow> string \<Rightarrow> document list \<Rightarrow> extracted_clause list \<Rightarrow> comparison list
     \<Rightarrow> exn + string" where
  "call_ollama_summary P q docs cls cmps =
     (if list_ex (\<lambda>c. comparison_score c = None) cmps
      then Inl (Exception ''unsupported format string passed to NoneType.__format__'')
      else ollama_summarize P q docs cls cmps)"

definition generate_summary ::
  "providers \<Rightarrow> pylib \<Rightarrow> string \<Rightarrow> document list \<Rightarrow> extracted_clause list
     \<Rightarrow> comparison list \<Rightarrow> exn + summary" where
  "generate_summary P L q docs cls cmps =
     (case call_ollama_summary P q docs cls cmps of
        Inl e \<Rightarrow> Inl e
      | Inr response \<Rightarrow> parse_summary_response L response q docs cls cmps)"

section \<open>The workflow\<close>

record research_result =
  rr_query :: string
  rr_documents :: "document list"
  rr_extracted_clauses :: "extracted_clause list"
  rr_comparisons :: "comparison list"
  rr_summary :: "summary option"
  rr_meta_regions :: "string list"
  rr_meta_document_types :: "string list"
  rr_meta_max_documents :: int
  rr_meta_workflow_version :: string

text \<open>The state dictionary of the graph, one field per key.\<close>

record state =
  st_query :: string
  st_regions :: "string list"
  st_document_types :: "string list"
  st_max_documents :: int
  st_status :: query_status
  st_progress :: "string \<Rightarrow> rat option"
  st_documents :: "document list"
  st_clauses :: "extracted_clause list"
  st_comparisons :: "comparison list"
  st_summary :: "summary option"
  st_result :: "research_result option"
  st_error :: "string option"

definition search_node :: "providers \<Rightarrow> state \<Rightarrow> state" where
  "search_node P st =
     (let st1 = st \<lparr> st_status := SEARCHING,
                      st_progress := (st_progress st)(''search_agent'' \<mapsto> 0) \<rparr>
      in case search_documents P (st_query st1) (Some (st_regions st1))
                (Some (st_document_types st1)) of
           Inl e \<Rightarrow>
             st1 \<lparr> st_error := Some (''Search failed: '' @ str_exn e), st_status := FAILED \<rparr>
         | Inr documents \<Rightarrow>
             (let documents' =
                    (if st_max_documents st1 \<noteq> 0
                     then py_take (st_max_documents st1) documents else documents)
              in st1 \<lparr> st_documents := documents',
                       st_progress := (st_progress st1)(''search_agent'' \<mapsto> 1) \<rparr>))"

definition extract_node :: "providers \<Rightarrow> pylib \<Rightarrow> state \<Rightarrow> state" where
  "extract_node P L st =
     (let st1 = st \<lparr> st_status := EXTRACTING,
                      st_progress := (st_progress st)(''extract_agent'' \<mapsto> 0) \<rparr>
      in case extract_clauses P L (st_documents st1) of
           Inl e \<Rightarrow>
             st1 \<lparr> st_error := Some (''Extraction failed: '' @ str_exn e),
                   st_status := FAILED \<rparr>
         | Inr clauses \<Rightarrow>
             st1 \<lparr> st_clauses := validate_clauses clauses,
                   st_progress := (st_progress st1)(''extract_agent'' \<mapsto> 1) \<rparr>)"

definition compare_node :: "providers \<Rightarrow> pylib \<Rightarrow> state \<Rightarrow> state" where
  "compare_node P L st =
     (let st1 = st \<lparr> st_status := COMPARING,
                      st_progress := (st_progress st)(''compare_agent'' \<mapsto> 0) \<rparr>
      in case compare_clauses P L (st_clauses st1) of
           Inl e \<Rightarrow>
             st1 \<lparr> st_error := Some (''Comparison failed: '' @ str_exn e),
                   st_status := FAILED \<rparr>
         | Inr cmps \<Rightarrow>
             st1 \<lparr> st_comparisons := cmps,
                   st_progress := (st_progress st1)(''compare_agent'' \<mapsto> 1) \<rparr>)"

definition summarize_node :: "providers \<Rightarrow> pylib \<Rightarrow> state \<Rightarrow> state" where
  "summarize_node P L st =
     (let st1 = st \<lparr> st_status := SUMMARIZING,
                      st_progress := (st_progress st)(''summarize_agent'' \<mapsto> 0) \<rparr>
      in case generate_summary P L (st_query st1) (st_documents st1) (st_clauses st1)
                (st_comparisons st1) of
           Inl e \<Rightarrow>
             st1 \<lparr> st_error := Some (''Summarization failed: '' @ str_exn e),
                   st_status := FAILED \<rparr>
         | Inr sm \<Rightarrow>
             st1 \<lparr> st_summary := Some sm,
                   st_progress := (st_progress st1)(''summarize_agent'' \<mapsto> 1) \<rparr>)"

text \<open>The result's \<open>completed_at\<close> is the clock's reading and is left out.\<close>

definition finalize_node :: "state \<Rightarrow> state" where
  "finalize_node st =
     st \<lparr> st_result :=
            Some \<lparr> rr_query = st_query st,
                   rr_documents = st_documents st,
                   rr_extracted_clauses = st_clauses st,
                   rr_comparisons = st_comparisons st,
                   rr_summary = st_summary st,
                   rr_meta_regions = st_regions st,
                   rr_meta_document_types = st_document_types st,
                   rr_meta_max_documents = st_max_documents st,
                   rr_meta_workflow_version = ''1.0'' \<rparr>,
          st_status := COMPLETED \<rparr>"

definition should_continue :: "state \<Rightarrow> string" where
  "should_continue st =
     (case st_error st of
        None \<Rightarrow> ''continue''
      | Some e \<Rightarrow> if e = [] then ''continue'' else ''error'')"

subsection \<open>The graph\<close>

datatype node = N_search | N_extract | N_compare | N_summarize | N_finalize | N_END

definition entry_point :: node where
  "entry_point = N_search"

definition edges :: "(node \<times> node) list" where
  "edges =
     [(N_search, N_extract), (N_extract, N_compare), (N_compare, N_summarize),
      (N_summarize, N_finalize), (N_finalize, N_END)]"

definition conditional_edges :: "(node \<times> (string \<times> node) list) list" where
  "conditional_edges =
     [(N_search, [(''continue'', N_extract), (''error'', N_END)]),
      (N_extract, [(''continue'', N_compare), (''error'', N_END)]),
      (N_compare, [(''continue'', N_summarize), (''error'', N_END)]),
      (N_summarize, [(''continue'', N_finalize), (''error'', N_END)])]"

fun run_node :: "providers \<Rightarrow> pylib \<Rightarrow> node \<Rightarrow> state \<Rightarrow> state" where
  "run_node P L N_search st = search_node P st"
| "run_node P L N_extract st = extract_node P L st"
| "run_node P L N_compare st = compare_node P L st"
| "run_node P L N_summarize st = summarize_node P L st"
| "run_node P L N_finalize st = finalize_node st"
| "run_node P L N_END st = st"

text \<open>
  The graph library runs the compiled graph in steps. A node that has run triggers, for the
  next step, the target of every edge that \<open>add_edge\<close> gave it and the target that the
  routing function of its \<open>add_conditional_edges\<close> selects: the two kinds of edges add up,
  neither replaces the other. \<open>END\<close> runs nothing. The state is one value that a single
  node replaces per step, and the run stops with an error once it has taken as many steps as
  the recursion limit, 25 by default. The list of nodes that have run is kept beside the
  state, for the statements about which stages are invoked.

  The two errors of the step function (the recursion limit, and two nodes replacing the
  state in one step) are the library's and arise in no run of this graph, which takes five
  steps of one node each.

  The graph is compiled with a checkpointer (\<open>MemorySaver\<close>). The library then refuses, before
  any node runs, a call whose configuration names no thread: \<open>ainvoke\<close> takes the
  \<open>thread_id\<close> of the call's configuration, \<open>None\<close> when there is none.
\<close>

definition triggered :: "node \<Rightarrow> state \<Rightarrow> node list" where
  "triggered n st =
     remdups
       (filter (\<lambda>m. m \<noteq> N_END)
          (map snd (filter (\<lambda>e. fst e = n) edges)
           @ (case map_of conditional_edges n of
                None \<Rightarrow> []
              | Some path_map \<Rightarrow>
                  (case map_of path_map (should_continue st) of
                     None \<Rightarrow> []
                   | Some target \<Rightarrow> [target]))))"

fun pregel ::
  "nat \<Rightarrow> providers \<Rightarrow> pylib \<Rightarrow> node list \<Rightarrow> state \<times> node list
     \<Rightarrow> exn + state \<times> node list" where
  "pregel k P L [] (st, tr) = Inr (st, tr)"
| "pregel 0 P L (n # ns) (st, tr) = Inl (Exception ''GraphRecursionError'')"
| "pregel (Suc k) P L [n] (st, tr) =
     (let st' = run_node P L n st
      in pregel k P L (triggered n st') (st', tr @ [n]))"
| "pregel (Suc k) P L (n # m # ns) (st, tr) = Inl (Exception ''InvalidUpdateError'')"

definition ainvoke ::
  "providers \<Rightarrow> pylib \<Rightarrow> state \<Rightarrow> string option \<Rightarrow> exn + state \<times> node list" where
  "ainvoke P L st thread_id =
     (case thread_id of
        None \<Rightarrow> Inl (Exception (thread_error L))
      | Some t \<Rightarrow> pregel 25 P L [entry_point] (st, []))"

definition initial_state :: "research_query \<Rightarrow> state" where
  "initial_state rq =
     \<lparr> st_query = rq_query rq,
       st_regions = (case rq_regions rq of None \<Rightarrow> [] | Some rs \<Rightarrow> rs),
       st_document_types = (case rq_document_types rq of None \<Rightarrow> [] | Some ts \<Rightarrow> ts),
       st_max_documents =
         (case rq_max_documents rq of None \<Rightarrow> 10 | Some n \<Rightarrow> if n = 0 then 10 else n),
       st_status = PENDING,
       st_progress =
         [''search_agent'' \<mapsto> 0, ''extract_agent'' \<mapsto> 0, ''compare_agent'' \<mapsto> 0,
          ''summarize_agent'' \<mapsto> 0],
       st_documents = [],
       st_clauses = [],
       st_comparisons = [],
       st_summary = None,
       st_result = None,
       st_error = None \<rparr>"

text \<open>\<open>run_research\<close> without configuration overrides, as the API's background task
  calls it. It calls \<open>ainvoke\<close> with the state alone, so with no thread. \<open>Inl\<close> is the
  exception it raises.\<close>

definition run_research ::
  "providers \<Rightarrow> pylib \<Rightarrow> research_query \<Rightarrow> exn + research_result option" where
  "run_research P L rq =
     (case ainvoke P L (initial_state rq) None of
        Inl e \<Rightarrow> Inl e
      | Inr (final_state, tr) \<Rightarrow>
          (case st_error final_state of
             None \<Rightarrow> Inr (st_result final_state)
           | Some e \<Rightarrow>
               if e = [] then Inr (st_result final_state)
               else Inl (Exception (''Workflow failed: '' @ e))))"

section \<open>Notions of the specification\<close>

text \<open>The jurisdictions that contribute clauses to a topic, the topics that a jurisdiction
  covers, and the jurisdictions that lack a topic, read off the clause list itself. Topics
  are compared lower-cased; the jurisdictions lacking a topic are listed in the order in
  which the jurisdictions first occur.\<close>

definition juris_of :: "extracted_clause list \<Rightarrow> string \<Rightarrow> string set" where
  "juris_of cls t = {jurisdiction c | c. c \<in> set cls \<and> py_lower (topic c) = t}"

definition topics_of :: "extracted_clause list \<Rightarrow> string \<Rightarrow> string set" where
  "topics_of cls j = {py_lower (topic c) | c. c \<in> set cls \<and> jurisdiction c = j}"

definition lacking :: "extracted_clause list \<Rightarrow> string \<Rightarrow> string list" where
  "lacking cls t =
     filter (\<lambda>j. t \<notin> topics_of cls j) (rev (remdups (rev (map jurisdiction cls))))"

text \<open>Structured parsing of a response fails when it holds no bracketed candidate between
  \<open>op\<close> and \<open>cl\<close>, or when \<open>json.loads\<close> rejects the candidate.\<close>

definition no_candidate :: "char \<Rightarrow> char \<Rightarrow> string \<Rightarrow> bool" where
  "no_candidate op cl response =
     (py_find response op 0 = -1 \<or> py_rfind response cl + 1 = 0)"

definition candidate :: "char \<Rightarrow> char \<Rightarrow> string \<Rightarrow> string" where
  "candidate op cl response =
     py_slice response (nat (py_find response op 0)) (nat (py_rfind response cl + 1))"

definition parse_fails :: "pylib \<Rightarrow> char \<Rightarrow> char \<Rightarrow> string \<Rightarrow> bool" where
  "parse_fails L op cl response =
     (no_candidate op cl response \<or> json_loads L (candidate op cl response) = None)"

section \<open>Example inputs\<close>

definition ex_lib :: pylib where
  "ex_lib =
     \<lparr> json_loads =
         (\<lambda>s. if s = ''{}'' then Some (JObj [])
              else if s = ''[]'' then Some (JArr []) else None),
       val_str = (\<lambda>j. case j of JStr s \<Rightarrow> Some s | _ \<Rightarrow> None),
       val_float = (\<lambda>j. case j of JNum v \<Rightarrow> Some v | _ \<Rightarrow> None),
       error_text = (\<lambda>j. ''value rejected''),
       thread_error = ''no thread_id'' \<rparr>"

text \<open>Providers that answer every call alike.\<close>

definition const_providers ::
  "exn + raw_result list option \<Rightarrow> exn + string \<Rightarrow> exn + string \<Rightarrow> exn + string
     \<Rightarrow> providers" where
  "const_providers s e c m =
     \<lparr> tavily_search = (\<lambda>q regions dtypes. s),
       ollama_extract = (\<lambda>doc. e),
       ollama_compare = (\<lambda>tp jc. c),
       ollama_summarize = (\<lambda>q docs cls cmps. m) \<rparr>"

definition ex_query :: research_query where
  "ex_query =
     \<lparr> rq_query = ''AI policy'', rq_regions = None, rq_document_types = None,
       rq_max_documents = None \<rparr>"


definition ex_document :: document where
  "ex_document =
     \<lparr> title = ''AI principles'', url = ''https://oecd.org/ai'',
       content = ''AI policy report'', source = ''Unknown'', region = Some ''Unknown'',
       document_type = Some ''policy_framework'', relevance_score = Some (1 / 2) \<rparr>"

definition ex_clause_line :: string where
  "ex_clause_line =
     CHR 0x22 # ''clause_text'' @ CHR 0x22 # '': '' @ CHR 0x22
       # ''High-risk AI systems must be registered'' @ [CHR 0x22]"

definition ex_clause :: "string \<Rightarrow> string \<Rightarrow> extracted_clause" where
  "ex_clause tp j =
     \<lparr> clause_text = ''High-risk AI systems must be registered'',
       clause_type = ''requirement'', topic = tp, jurisdiction = j,
       document_source = ''AI principles'', confidence_score = Some (4 / 5),
       key_entities = None \<rparr>"

text \<open>A response that decodes to an object whose \<open>key_findings\<close> is a number, and a
  library that decodes it.\<close>

definition ex_bad_summary :: string where
  "ex_bad_summary = ''{'' @ [CHR 0x22] @ ''key_findings'' @ [CHR 0x22] @ '': 1}''"

definition ex_lib_obj :: pylib where
  "ex_lib_obj =
     ex_lib \<lparr> json_loads :=
                (\<lambda>s. if s = ex_bad_summary then Some (JObj [(''key_findings'', JNum 1)])
                     else json_loads ex_lib s) \<rparr>"

section \<open>Verification\<close>



lemma dict_upd_keys:
  "map fst (dict_upd k f dflt d) = (if k \<in> set (map fst d) then map fst d else map fst d @ [k])"
proof (induction d)
  case Nil
  then show ?case by simp
next
  case (Cons p d)
  obtain k' v where p: "p = (k', v)" by (cases p)
  show ?case using Cons unfolding p by (cases "k' = k") (auto simp: image_iff)
qed

lemma dict_upd_distinct:
  "distinct (map fst d) \<Longrightarrow> distinct (map fst (dict_upd k f dflt d))"
  by (simp add: dict_upd_keys)

lemma dict_upd_map_of:
  "map_of (dict_upd k f dflt d) =
     (map_of d)(k \<mapsto> f (case map_of d k of None \<Rightarrow> dflt | Some v \<Rightarrow> v))"
  by (induction d) (auto simp: fun_eq_iff)

lemma group_clauses_snoc:
  "group_clauses (cls @ [c]) =
     dict_upd (py_lower (topic c)) (dict_upd (jurisdiction c) (\<lambda>l. l @ [c]) []) []
       (group_clauses cls)"
  by (simp add: group_clauses_def)

lemma juris_of_snoc:
  "juris_of (cls @ [c]) t =
     (if py_lower (topic c) = t then insert (jurisdiction c) (juris_of cls t) else juris_of cls t)"
  by (auto simp: juris_of_def)

lemma group_clauses_keys:
  "set (map fst (group_clauses cls)) = (\<lambda>c. py_lower (topic c)) ` set cls"
proof (induction cls rule: rev_induct)
  case Nil
  then show ?case by (simp add: group_clauses_def)
next
  case (snoc c cls)
  then show ?case
    unfolding group_clauses_snoc dict_upd_keys by auto
qed

lemma group_clauses_distinct: "distinct (map fst (group_clauses cls))"
proof (induction cls rule: rev_induct)
  case Nil
  then show ?case by (simp add: group_clauses_def)
next
  case (snoc c cls)
  then show ?case
    unfolding group_clauses_snoc by (rule dict_upd_distinct)
qed

lemma juris_of_no_key:
  assumes "map_of (group_clauses cls) t = None"
  shows "juris_of cls t = {}"
proof -
  have "t \<notin> set (map fst (group_clauses cls))"
    using assms by (simp add: map_of_eq_None_iff)
  then have "t \<notin> (\<lambda>c. py_lower (topic c)) ` set cls"
    using group_clauses_keys [of cls] by simp
  then show ?thesis unfolding juris_of_def by blast
qed

lemma group_clauses_inner:
  "map_of (group_clauses cls) t = Some jc \<Longrightarrow>
     distinct (map fst jc) \<and> set (map fst jc) = juris_of cls t"
proof (induction cls arbitrary: jc rule: rev_induct)
  case Nil
  then show ?case by (simp add: group_clauses_def)
next
  case (snoc c cls)
  let ?g = "group_clauses cls"
  show ?case
  proof (cases "py_lower (topic c) = t")
    case False
    then have "map_of ?g t = Some jc"
      using snoc.prems unfolding group_clauses_snoc dict_upd_map_of by (simp split: if_splits)
    then show ?thesis using snoc.IH False by (simp add: juris_of_snoc)
  next
    case True
    show ?thesis
    proof (cases "map_of ?g t")
      case None
      then have jc: "jc = [(jurisdiction c, [c])]"
        using snoc.prems True unfolding group_clauses_snoc dict_upd_map_of by auto
      show ?thesis using jc True juris_of_no_key [OF None] by (simp add: juris_of_snoc)
    next
      case (Some old)
      then have jc: "jc = dict_upd (jurisdiction c) (\<lambda>l. l @ [c]) [] old"
        using snoc.prems True unfolding group_clauses_snoc dict_upd_map_of by auto
      have ih: "distinct (map fst old)" "set (map fst old) = juris_of cls t"
        using snoc.IH [OF Some] by simp_all
      show ?thesis
        unfolding jc using ih True
        by (auto simp: dict_upd_keys juris_of_snoc)
    qed
  qed
qed

lemma group_clauses_mem:
  assumes "(t, jc) \<in> set (group_clauses cls)"
  shows "distinct (map fst jc) \<and> set (map fst jc) = juris_of cls t"
  using assms group_clauses_inner group_clauses_distinct by (metis map_of_is_SomeI)

lemma compare_loop_mem:
  "c \<in> set (compare_loop P L g) \<Longrightarrow>
     \<exists>t jc. (t, jc) \<in> set g \<and> 1 < length jc \<and> compare_topic P L t jc = Some c"
  by (induction P L g rule: compare_loop.induct) (auto split: if_splits option.splits)

lemma parse_comparison_response_fields:
  "parse_comparison_response L r t jc = Inr c \<Longrightarrow>
     cmp_topic c = t \<and> jurisdictions_compared c = map fst jc"
  by (auto simp: parse_comparison_response_def create_fallback_comparison_def Let_def
      split: if_splits option.splits json.splits prod.splits)

lemma compare_topic_fields:
  "compare_topic P L t jc = Some c \<Longrightarrow>
     cmp_topic c = t \<and> jurisdictions_compared c = map fst jc"
  by (auto simp: compare_topic_def split: sum.splits dest: parse_comparison_response_fields)



lemma lower_char_idem: "lower_char (lower_char c) = lower_char c"
  by (auto simp: lower_char_def is_upper_char_def Let_def)

lemma py_lower_idem: "py_lower (py_lower s) = py_lower s"
  by (simp add: py_lower_def lower_char_idem)

lemma topics_of_code [code]:
  "topics_of cls j = set (map (\<lambda>c. py_lower (topic c)) (filter (\<lambda>c. jurisdiction c = j) cls))"
  by (auto simp: topics_of_def)

lemma juris_of_code [code]:
  "juris_of cls t = set (map jurisdiction (filter (\<lambda>c. py_lower (topic c) = t) cls))"
  by (auto simp: juris_of_def)

lemma jurisdiction_topics_snoc:
  "jurisdiction_topics (cls @ [c]) =
     dict_upd (jurisdiction c) (insert (py_lower (topic c))) {} (jurisdiction_topics cls)"
  by (simp add: jurisdiction_topics_def)

lemma jurisdiction_topics_keys:
  "set (map fst (jurisdiction_topics cls)) = jurisdiction ` set cls"
proof (induction cls rule: rev_induct)
  case Nil
  then show ?case by (simp add: jurisdiction_topics_def)
next
  case (snoc c cls)
  then show ?case unfolding jurisdiction_topics_snoc dict_upd_keys by auto
qed

lemma jurisdiction_topics_distinct: "distinct (map fst (jurisdiction_topics cls))"
proof (induction cls rule: rev_induct)
  case Nil
  then show ?case by (simp add: jurisdiction_topics_def)
next
  case (snoc c cls)
  then show ?case unfolding jurisdiction_topics_snoc by (rule dict_upd_distinct)
qed

lemma topics_of_snoc:
  "topics_of (cls @ [c]) j =
     (if jurisdiction c = j then insert (py_lower (topic c)) (topics_of cls j)
      else topics_of cls j)"
  by (auto simp: topics_of_def)

lemma topics_at_jurisdiction_topics:
  "topics_at (jurisdiction_topics cls) j = topics_of cls j"
proof (induction cls rule: rev_induct)
  case Nil
  then show ?case by (simp add: jurisdiction_topics_def topics_at_def topics_of_def)
next
  case (snoc c cls)
  then show ?case
    unfolding jurisdiction_topics_snoc topics_of_snoc
    by (auto simp: topics_at_def dict_upd_map_of split: option.splits)
qed

lemma filter_not_in_filter:
  "filter (\<lambda>j. j \<notin> set (filter P xs)) xs = filter (\<lambda>j. \<not> P j) xs"
  by (rule filter_cong) auto

lemma length_filter_lt_iff:
  "length (filter P xs) < length xs \<longleftrightarrow> (\<exists>x\<in>set xs. \<not> P x)"
proof
  assume "length (filter P xs) < length xs"
  then show "\<exists>x\<in>set xs. \<not> P x"
    by (metis filter_True less_irrefl)
next
  assume "\<exists>x\<in>set xs. \<not> P x"
  then show "length (filter P xs) < length xs"
    by (auto intro: length_filter_less)
qed

lemma gaps_for_topic_eq:
  "gaps_for_topic jt t =
     (if \<exists>j\<in>set (map fst jt). t \<notin> topics_at jt j
      then [gap_message t (filter (\<lambda>j. t \<notin> topics_at jt j) (map fst jt))]
      else [])"
  unfolding gaps_for_topic_def Let_def filter_not_in_filter length_filter_lt_iff by simp

lemma jurisdiction_topics_order:
  "map fst (jurisdiction_topics cls) = rev (remdups (rev (map jurisdiction cls)))"
proof (induction cls rule: rev_induct)
  case Nil
  then show ?case by (simp add: jurisdiction_topics_def)
next
  case (snoc c cls)
  have "set (map fst (jurisdiction_topics cls)) = set (map jurisdiction cls)"
    using jurisdiction_topics_keys [of cls] by simp
  then show ?case
    unfolding jurisdiction_topics_snoc dict_upd_keys using snoc by simp
qed

lemma lacking_set:
  "distinct (lacking cls t) \<and>
   set (lacking cls t) = {j \<in> jurisdiction ` set cls. t \<notin> topics_of cls j}"
  by (auto simp: lacking_def)

lemma gaps_for_topic_clauses:
  "gaps_for_topic (jurisdiction_topics cls) t =
     (if lacking cls t = [] then [] else [gap_message t (lacking cls t)])"
proof -
  have "lacking cls t =
          filter (\<lambda>j. t \<notin> topics_of cls j) (map fst (jurisdiction_topics cls))"
    by (simp add: lacking_def jurisdiction_topics_order)
  then show ?thesis
    unfolding gaps_for_topic_eq topics_at_jurisdiction_topics
    by (simp add: filter_empty_conv)
qed

lemma identify_regulatory_gaps_mem:
  "g \<in> set (identify_regulatory_gaps h cls) \<longleftrightarrow>
     (\<exists>t \<in> (\<lambda>c. py_lower (topic c)) ` set cls.
         lacking cls t \<noteq> [] \<and> g = gap_message t (lacking cls t))"
  unfolding identify_regulatory_gaps_def Let_def gaps_for_topic_clauses
  by (auto split: if_splits)

lemma same_topics_no_lack:
  assumes "\<forall>c1\<in>set cls. \<forall>c2\<in>set cls.
             topics_of cls (jurisdiction c1) = topics_of cls (jurisdiction c2)"
    and "c \<in> set cls"
  shows "lacking cls (py_lower (topic c)) = []"
proof -
  have "py_lower (topic c) \<in> topics_of cls (jurisdiction c)"
    using assms(2) by (auto simp: topics_of_def)
  then have "\<forall>c'\<in>set cls. py_lower (topic c) \<in> topics_of cls (jurisdiction c')"
    using assms by blast
  then show ?thesis
    by (auto simp: lacking_def filter_empty_conv)
qed

lemma gaps_empty:
  assumes "\<forall>c1\<in>set cls. \<forall>c2\<in>set cls.
             topics_of cls (jurisdiction c1) = topics_of cls (jurisdiction c2)"
  shows "identify_regulatory_gaps h cls = []"
proof -
  have "g \<notin> set (identify_regulatory_gaps h cls)" for g
    unfolding identify_regulatory_gaps_mem using same_topics_no_lack [OF assms] by blast
  then show ?thesis by (cases "identify_regulatory_gaps h cls") auto
qed



lemma triggered_search: "triggered N_search st = [N_extract]"
  by (simp add: triggered_def edges_def conditional_edges_def should_continue_def
      split: option.splits)
lemma triggered_extract: "triggered N_extract st = [N_compare]"
  by (simp add: triggered_def edges_def conditional_edges_def should_continue_def
      split: option.splits)
lemma triggered_compare: "triggered N_compare st = [N_summarize]"
  by (simp add: triggered_def edges_def conditional_edges_def should_continue_def
      split: option.splits)
lemma triggered_summarize: "triggered N_summarize st = [N_finalize]"
  by (simp add: triggered_def edges_def conditional_edges_def should_continue_def
      split: option.splits)
lemma triggered_finalize: "triggered N_finalize st = []"
  by (simp add: triggered_def edges_def conditional_edges_def)

lemma ainvoke_eq:
  "ainvoke P L st (Some t) =
     Inr (finalize_node (summarize_node P L (compare_node P L (extract_node P L (search_node P st)))),
          [N_search, N_extract, N_compare, N_summarize, N_finalize])"
  by (simp add: ainvoke_def entry_point_def eval_nat_numeral Let_def
      triggered_search triggered_extract triggered_compare triggered_summarize
      triggered_finalize)

lemma run_research_refused: "run_research P L rq = Inl (Exception (thread_error L))"
  by (simp add: run_research_def ainvoke_def)

lemma strip_nl_both:
  assumes "\<not> is_space_char a" "\<not> is_space_char b"
  shows "py_strip (CHR 0x0A # a # s @ [b, CHR 0x0A]) = a # s @ [b]"
  using assms by (simp add: py_strip_def is_space_char_def)

lemma exec_summary_text:
  "executive_summary (create_fallback_summary q docs cls cmps) =
     ''This research analyzed AI policy documents in response to the query: ''
       @ [CHR 0x22] @ q @ [CHR 0x22] @ ''. \<newline>''
       @ ''The analysis covered '' @ str_nat (length docs)
       @ '' documents and extracted '' @ str_nat (length cls)
       @ '' legal clauses \<newline>''
       @ ''across '' @ str_nat (length cmps)
       @ '' comparative topics. The research provides insights into \<newline>''
       @ ''regulatory approaches across different jurisdictions and identifies key policy differences.''"
proof -
  let ?mid = "''his research analyzed AI policy documents in response to the query: ''
       @ [CHR 0x22] @ q @ [CHR 0x22] @ ''. \<newline>''
       @ ''The analysis covered '' @ str_nat (length docs)
       @ '' documents and extracted '' @ str_nat (length cls)
       @ '' legal clauses \<newline>''
       @ ''across '' @ str_nat (length cmps)
       @ '' comparative topics. The research provides insights into \<newline>''
       @ ''regulatory approaches across different jurisdictions and identifies key policy differences''"
  have "executive_summary (create_fallback_summary q docs cls cmps) =
          py_strip (CHR 0x0A # CHR ''T'' # ?mid @ [CHR ''.'', CHR 0x0A])"
    by (simp add: create_fallback_summary_def)
  also have "\<dots> = CHR ''T'' # ?mid @ [CHR ''.'']"
    by (rule strip_nl_both) (simp_all add: is_space_char_def)
  finally show ?thesis by simp
qed


lemma sublist_mid: "sublist x (a @ x @ b)"
  unfolding sublist_def by blast

lemma exec_summary_counts:
  "sublist (str_nat (length docs)) (executive_summary (create_fallback_summary q docs cls cmps))
   \<and> sublist (str_nat (length cls)) (executive_summary (create_fallback_summary q docs cls cmps))
   \<and> sublist (str_nat (length cmps)) (executive_summary (create_fallback_summary q docs cls cmps))"
proof -
  define a where "a = ''This research analyzed AI policy documents in response to the query: ''
       @ [CHR 0x22] @ q @ [CHR 0x22] @ ''. \<newline>The analysis covered ''"
  define b where "b = '' documents and extracted ''"
  define c where "c = '' legal clauses \<newline>across ''"
  define d where "d = '' comparative topics. The research provides insights into \<newline>''
       @ ''regulatory approaches across different jurisdictions and identifies key policy differences.''"
  have e: "executive_summary (create_fallback_summary q docs cls cmps) =
     a @ str_nat (length docs) @ b @ str_nat (length cls) @ c @ str_nat (length cmps) @ d"
    unfolding exec_summary_text a_def b_def c_def d_def by simp
  have 1: "sublist (str_nat (length docs)) (a @ str_nat (length docs) @ b @ str_nat (length cls) @ c @ str_nat (length cmps) @ d)"
    by (rule sublist_mid)
  have 2: "sublist (str_nat (length cls)) ((a @ str_nat (length docs) @ b) @ str_nat (length cls) @ c @ str_nat (length cmps) @ d)"
    by (rule sublist_mid)
  have 3: "sublist (str_nat (length cmps)) ((a @ str_nat (length docs) @ b @ str_nat (length cls) @ c) @ str_nat (length cmps) @ d)"
    by (rule sublist_mid)
  show ?thesis unfolding e using 1 2 3 by (simp only: append_assoc)
qed



lemma compare_clauses_mem:
  assumes "c \<in> set (compare_loop P L (group_clauses cls))"
  shows "1 < length (jurisdictions_compared c) \<and> distinct (jurisdictions_compared c)
         \<and> set (jurisdictions_compared c) = juris_of cls (cmp_topic c)
         \<and> cmp_topic c \<in> (\<lambda>cl. py_lower (topic cl)) ` set cls"
proof -
  obtain t jc where m: "(t, jc) \<in> set (group_clauses cls)" and l: "1 < length jc"
    and ct: "compare_topic P L t jc = Some c"
    using compare_loop_mem [OF assms] by blast
  have f: "cmp_topic c = t" "jurisdictions_compared c = map fst jc"
    using compare_topic_fields [OF ct] by simp_all
  have "t \<in> set (map fst (group_clauses cls))"
    using m by force
  then have k: "t \<in> (\<lambda>cl. py_lower (topic cl)) ` set cls"
    using group_clauses_keys [of cls] by simp
  show ?thesis using group_clauses_mem [OF m] f l k by simp
qed

lemma two_distinct:
  assumes "1 < length xs" "distinct xs"
  shows "\<exists>a\<in>set xs. \<exists>b\<in>set xs. a \<noteq> b"
proof -
  obtain a b ys where "xs = a # b # ys"
    using assms(1) by (cases xs; cases "tl xs") auto
  then show ?thesis using assms(2) by auto
qed

text \<open>
  C4. Whatever the providers answer, the Compare stage returns a list of Comparisons, and
  each of them has a topic for which the input holds two clauses of that lower-cased topic
  with different jurisdictions: a topic whose clauses all carry one jurisdiction produces
  none. If all clauses of the input carry the same jurisdiction, the list is empty.
\<close>

theorem compare_needs_two_jurisdictions:
  "\<exists>cmps. compare_clauses P L cls = Inr cmps
     \<and> (\<forall>c\<in>set cmps. \<exists>c1\<in>set cls. \<exists>c2\<in>set cls.
            py_lower (topic c1) = cmp_topic c \<and> py_lower (topic c2) = cmp_topic c
            \<and> jurisdiction c1 \<noteq> jurisdiction c2)
     \<and> ((\<forall>c1\<in>set cls. \<forall>c2\<in>set cls. jurisdiction c1 = jurisdiction c2) \<longrightarrow> cmps = [])"
proof -
  let ?cmps = "compare_loop P L (group_clauses cls)"
  have two: "\<exists>c1\<in>set cls. \<exists>c2\<in>set cls.
            py_lower (topic c1) = cmp_topic c \<and> py_lower (topic c2) = cmp_topic c
            \<and> jurisdiction c1 \<noteq> jurisdiction c2" if "c \<in> set ?cmps" for c
  proof -
    from compare_clauses_mem [OF that]
    have l: "1 < length (jurisdictions_compared c)" "distinct (jurisdictions_compared c)"
      and s: "set (jurisdictions_compared c) = juris_of cls (cmp_topic c)" by simp_all
    obtain a b where "a \<in> juris_of cls (cmp_topic c)" "b \<in> juris_of cls (cmp_topic c)" "a \<noteq> b"
      using two_distinct [OF l] s by auto
    then show ?thesis unfolding juris_of_def by blast
  qed
  have single: "?cmps = []" if "\<forall>c1\<in>set cls. \<forall>c2\<in>set cls. jurisdiction c1 = jurisdiction c2"
  proof (cases ?cmps)
    case Nil
    then show ?thesis .
  next
    case (Cons c rest)
    then have "c \<in> set ?cmps" by simp
    from two [OF this] that show ?thesis by blast
  qed
  show ?thesis
    unfolding compare_clauses_def using two single by blast
qed

theorem compare_needs_two_jurisdictions_witness:
  "(\<exists>cmps. compare_clauses (const_providers (Inr None) (Inr []) (Inr ''x'') (Inr []))
              ex_lib [ex_clause ''Safety'' ''EU'', ex_clause ''safety'' ''US'',
                      ex_clause ''privacy'' ''EU''] = Inr cmps
      \<and> map cmp_topic cmps = [''safety'']
      \<and> (\<forall>c\<in>set cmps.
            \<exists>c1\<in>set [ex_clause ''Safety'' ''EU'', ex_clause ''safety'' ''US'',
                       ex_clause ''privacy'' ''EU''].
            \<exists>c2\<in>set [ex_clause ''Safety'' ''EU'', ex_clause ''safety'' ''US'',
                       ex_clause ''privacy'' ''EU''].
              py_lower (topic c1) = cmp_topic c \<and> py_lower (topic c2) = cmp_topic c
              \<and> jurisdiction c1 \<noteq> jurisdiction c2))
   \<and> map jurisdiction [ex_clause ''Safety'' ''EU'', ex_clause ''privacy'' ''EU'']
       = [''EU'', ''EU'']
   \<and> compare_clauses (const_providers (Inr None) (Inr []) (Inr ''x'') (Inr []))
        ex_lib [ex_clause ''Safety'' ''EU'', ex_clause ''privacy'' ''EU''] = Inr []"
proof -
  let ?P = "const_providers (Inr None) (Inr []) (Inr ''x'') (Inr [])"
  let ?A = "[ex_clause ''Safety'' ''EU'', ex_clause ''safety'' ''US'',
             ex_clause ''privacy'' ''EU'']"
  let ?B = "[ex_clause ''Safety'' ''EU'', ex_clause ''privacy'' ''EU'']"
  have ev: "map_sum id (map cmp_topic) (compare_clauses ?P ex_lib ?A) = Inr [''safety'']"
    by code_simp
  have same: "\<forall>c1\<in>set ?B. \<forall>c2\<in>set ?B. jurisdiction c1 = jurisdiction c2"
    by (simp add: ex_clause_def)
  from compare_needs_two_jurisdictions [of ?P ex_lib ?A]
  obtain cmps where a: "compare_clauses ?P ex_lib ?A = Inr cmps"
    and b: "\<forall>c\<in>set cmps. \<exists>c1\<in>set ?A. \<exists>c2\<in>set ?A.
              py_lower (topic c1) = cmp_topic c \<and> py_lower (topic c2) = cmp_topic c
              \<and> jurisdiction c1 \<noteq> jurisdiction c2"
    by blast
  have c: "map cmp_topic cmps = [''safety'']" using ev a by simp
  from compare_needs_two_jurisdictions [of ?P ex_lib ?B] same
  have d: "compare_clauses ?P ex_lib ?B = Inr []" by blast
  have first: "\<exists>cmps. compare_clauses ?P ex_lib ?A = Inr cmps
      \<and> map cmp_topic cmps = [''safety'']
      \<and> (\<forall>c\<in>set cmps. \<exists>c1\<in>set ?A. \<exists>c2\<in>set ?A.
              py_lower (topic c1) = cmp_topic c \<and> py_lower (topic c2) = cmp_topic c
              \<and> jurisdiction c1 \<noteq> jurisdiction c2)"
    by (rule exI [of _ cmps], intro conjI, rule a, rule c, rule b)
  have js: "map jurisdiction ?B = [''EU'', ''EU'']"
    by (simp add: ex_clause_def)
  show ?thesis by (rule conjI [OF first conjI [OF js d]])
qed


lemma parse_comparison_fallback:
  "parse_fails L (CHR ''{'') (CHR ''}'') r \<Longrightarrow>
     parse_comparison_response L r tp jc = Inr (create_fallback_comparison tp jc)"
  by (auto simp: parse_fails_def no_candidate_def candidate_def parse_comparison_response_def
      Let_def)

text \<open>
  C10. A Comparison that the parser returns, on the structured path or as the fallback,
  carries the topic it was given and the keys of the jurisdiction dictionary; the fallback
  is what a response without a decodable object gives. In the stage's output every
  Comparison's topic is a lower-cased topic of an input clause (lower-casing it again
  changes nothing), and its \<open>jurisdictions_compared\<close> lists, each once, exactly the
  jurisdictions of the input clauses with that lower-cased topic.
\<close>

theorem comparison_topic_is_grouping_key:
  "(parse_comparison_response L r tp jc = Inr c \<longrightarrow>
      cmp_topic c = tp \<and> jurisdictions_compared c = map fst jc)
   \<and> (parse_fails L (CHR ''{'') (CHR ''}'') r \<longrightarrow>
        parse_comparison_response L r tp jc = Inr (create_fallback_comparison tp jc))
   \<and> cmp_topic (create_fallback_comparison tp jc) = tp
   \<and> jurisdictions_compared (create_fallback_comparison tp jc) = map fst jc
   \<and> (\<exists>cmps. compare_clauses P L cls = Inr cmps
        \<and> (\<forall>c\<in>set cmps.
              py_lower (cmp_topic c) = cmp_topic c
              \<and> (\<exists>cl\<in>set cls. cmp_topic c = py_lower (topic cl))
              \<and> distinct (jurisdictions_compared c)
              \<and> set (jurisdictions_compared c) = juris_of cls (cmp_topic c)))"
proof -
  have stage: "py_lower (cmp_topic c) = cmp_topic c
              \<and> (\<exists>cl\<in>set cls. cmp_topic c = py_lower (topic cl))
              \<and> distinct (jurisdictions_compared c)
              \<and> set (jurisdictions_compared c) = juris_of cls (cmp_topic c)"
    if "c \<in> set (compare_loop P L (group_clauses cls))" for c
  proof -
    from compare_clauses_mem [OF that]
    have d: "distinct (jurisdictions_compared c)"
      and s: "set (jurisdictions_compared c) = juris_of cls (cmp_topic c)"
      and k: "cmp_topic c \<in> (\<lambda>cl. py_lower (topic cl)) ` set cls" by simp_all
    obtain cl where cl: "cl \<in> set cls" "cmp_topic c = py_lower (topic cl)"
      using k by blast
    have "py_lower (cmp_topic c) = cmp_topic c"
      unfolding cl(2) by (rule py_lower_idem)
    then show ?thesis using d s cl by blast
  qed
  have fb: "cmp_topic (create_fallback_comparison tp jc) = tp"
    "jurisdictions_compared (create_fallback_comparison tp jc) = map fst jc"
    by (simp_all add: create_fallback_comparison_def)
  show ?thesis
    unfolding compare_clauses_def
    using stage fb parse_comparison_fallback [of L r tp jc]
      parse_comparison_response_fields [of L r tp jc c]
    by blast
qed

theorem comparison_topic_is_grouping_key_witness:
  "(\<exists>cmps. compare_clauses (const_providers (Inr None) (Inr []) (Inr ''{}'') (Inr []))
              ex_lib [ex_clause ''Safety'' ''EU'', ex_clause ''safety'' ''US'',
                      ex_clause ''privacy'' ''EU''] = Inr cmps
      \<and> map cmp_topic cmps = [''safety'']
      \<and> map jurisdictions_compared cmps = [[''EU'', ''US'']]
      \<and> (\<forall>c\<in>set cmps.
            py_lower (cmp_topic c) = cmp_topic c
            \<and> (\<exists>cl\<in>set [ex_clause ''Safety'' ''EU'', ex_clause ''safety'' ''US'',
                            ex_clause ''privacy'' ''EU''].
                  cmp_topic c = py_lower (topic cl))
            \<and> distinct (jurisdictions_compared c)
            \<and> set (jurisdictions_compared c)
                = juris_of [ex_clause ''Safety'' ''EU'', ex_clause ''safety'' ''US'',
                            ex_clause ''privacy'' ''EU''] (cmp_topic c)))
   \<and> parse_fails ex_lib (CHR ''{'') (CHR ''}'') ''x''
   \<and> parse_comparison_response ex_lib ''x'' ''safety'' [(''EU'', []), (''US'', [])]
       = Inr (create_fallback_comparison ''safety'' [(''EU'', []), (''US'', [])])"
proof -
  let ?P = "const_providers (Inr None) (Inr []) (Inr ''{}'') (Inr [])"
  let ?A = "[ex_clause ''Safety'' ''EU'', ex_clause ''safety'' ''US'',
             ex_clause ''privacy'' ''EU'']"
  let ?jc = "[(''EU'', []), (''US'', [])] :: jurisdiction_clauses"
  have ev: "map_sum id (map (\<lambda>c. (cmp_topic c, jurisdictions_compared c)))
              (compare_clauses ?P ex_lib ?A) = Inr [(''safety'', [''EU'', ''US''])]"
    by code_simp
  have pf: "parse_fails ex_lib (CHR ''{'') (CHR ''}'') ''x''"
    by code_simp
  note th = comparison_topic_is_grouping_key
    [of ex_lib "''x''" "''safety''" ?jc
        "create_fallback_comparison ''safety'' ?jc" ?P ?A]
  from th pf have fb: "parse_comparison_response ex_lib ''x'' ''safety'' ?jc
       = Inr (create_fallback_comparison ''safety'' ?jc)"
    by blast
  from th obtain cmps where a: "compare_clauses ?P ex_lib ?A = Inr cmps"
    and b: "\<forall>c\<in>set cmps.
            py_lower (cmp_topic c) = cmp_topic c
            \<and> (\<exists>cl\<in>set ?A. cmp_topic c = py_lower (topic cl))
            \<and> distinct (jurisdictions_compared c)
            \<and> set (jurisdictions_compared c) = juris_of ?A (cmp_topic c)"
    by blast
  have c: "map cmp_topic cmps = [''safety'']"
    and d: "map jurisdictions_compared cmps = [[''EU'', ''US'']]"
    using ev a by (auto simp: map_eq_Cons_conv)
  have first: "\<exists>cmps. compare_clauses ?P ex_lib ?A = Inr cmps
      \<and> map cmp_topic cmps = [''safety'']
      \<and> map jurisdictions_compared cmps = [[''EU'', ''US'']]
      \<and> (\<forall>c\<in>set cmps.
            py_lower (cmp_topic c) = cmp_topic c
            \<and> (\<exists>cl\<in>set ?A. cmp_topic c = py_lower (topic cl))
            \<and> distinct (jurisdictions_compared c)
            \<and> set (jurisdictions_compared c) = juris_of ?A (cmp_topic c))"
    by (rule exI [of _ cmps], intro conjI, rule a, rule c, rule d, rule b)
  show ?thesis by (rule conjI [OF first conjI [OF pf fb]])
qed

text \<open>
  C7. If every jurisdiction of the input carries the same set of lower-cased topics, the
  coverage-gap operation returns the empty list. In general its statements are exactly
  the messages that name a lower-cased topic of the input and the jurisdictions lacking
  it, for the topics that some jurisdiction lacks; the jurisdictions lacking a topic are,
  each once, the jurisdictions of the input none of whose clauses has that topic.
\<close>

theorem gaps_only_for_missing_topics:
  "((\<forall>c1\<in>set cls. \<forall>c2\<in>set cls.
        topics_of cls (jurisdiction c1) = topics_of cls (jurisdiction c2))
      \<longrightarrow> identify_regulatory_gaps h cls = [])
   \<and> (g \<in> set (identify_regulatory_gaps h cls) \<longleftrightarrow>
        (\<exists>c\<in>set cls. lacking cls (py_lower (topic c)) \<noteq> []
           \<and> g = gap_message (py_lower (topic c)) (lacking cls (py_lower (topic c)))))
   \<and> distinct (lacking cls t)
   \<and> set (lacking cls t) = {j \<in> jurisdiction ` set cls. t \<notin> topics_of cls j}"
proof -
  have m: "g \<in> set (identify_regulatory_gaps h cls) \<longleftrightarrow>
        (\<exists>c\<in>set cls. lacking cls (py_lower (topic c)) \<noteq> []
           \<and> g = gap_message (py_lower (topic c)) (lacking cls (py_lower (topic c))))"
    unfolding identify_regulatory_gaps_mem by blast
  show ?thesis
    using m gaps_empty [of cls h] lacking_set [of cls t] by blast
qed

theorem gaps_only_for_missing_topics_witness:
  "identify_regulatory_gaps (\<lambda>s. 0) [ex_clause ''Safety'' ''EU'', ex_clause ''safety'' ''US'']
     = []
   \<and> identify_regulatory_gaps (\<lambda>s. 0)
       [ex_clause ''privacy'' ''EU'', ex_clause ''transparency'' ''US'']
     = [''Topic '' @ [CHR 0x27] @ ''privacy'' @ [CHR 0x27]
          @ '' is missing in jurisdictions: US'',
        ''Topic '' @ [CHR 0x27] @ ''transparency'' @ [CHR 0x27]
          @ '' is missing in jurisdictions: EU'']
   \<and> lacking [ex_clause ''privacy'' ''EU'', ex_clause ''transparency'' ''US''] ''privacy''
     = [''US'']"
proof -
  let ?A = "[ex_clause ''Safety'' ''EU'', ex_clause ''safety'' ''US'']"
  let ?B = "[ex_clause ''privacy'' ''EU'', ex_clause ''transparency'' ''US'']"
  have same: "\<forall>c1\<in>set ?A. \<forall>c2\<in>set ?A.
        topics_of ?A (jurisdiction c1) = topics_of ?A (jurisdiction c2)"
    by code_simp
  from gaps_only_for_missing_topics [of ?A "\<lambda>s. 0"] same
  have a: "identify_regulatory_gaps (\<lambda>s. 0) ?A = []" by blast
  have b: "identify_regulatory_gaps (\<lambda>s. 0) ?B
     = [''Topic '' @ [CHR 0x27] @ ''privacy'' @ [CHR 0x27]
          @ '' is missing in jurisdictions: US'',
        ''Topic '' @ [CHR 0x27] @ ''transparency'' @ [CHR 0x27]
          @ '' is missing in jurisdictions: EU'']"
    by code_simp
  have c: "lacking ?B ''privacy'' = [''US'']"
    by code_simp
  show ?thesis by (rule conjI [OF a conjI [OF b c]])
qed


lemma extract_node_fields:
  "st_clauses (extract_node P L st)
     = validate_clauses (concat (map (extract_from_document P L) (st_documents st)))"
  "st_error (extract_node P L st) = st_error st"
  "st_status (extract_node P L st) = EXTRACTING"
  "st_documents (extract_node P L st) = st_documents st"
  "st_query (extract_node P L st) = st_query st"
  by (simp_all add: extract_node_def extract_clauses_def Let_def)

lemma compare_node_fields:
  "st_comparisons (compare_node P L st) = compare_loop P L (group_clauses (st_clauses st))"
  "st_error (compare_node P L st) = st_error st"
  "st_status (compare_node P L st) = COMPARING"
  "st_documents (compare_node P L st) = st_documents st"
  "st_clauses (compare_node P L st) = st_clauses st"
  "st_query (compare_node P L st) = st_query st"
  by (simp_all add: compare_node_def compare_clauses_def Let_def)

lemma finalize_node_fields:
  "st_error (finalize_node st) = st_error st"
  "st_status (finalize_node st) = COMPLETED"
  "st_summary (finalize_node st) = st_summary st"
  "st_documents (finalize_node st) = st_documents st"
  "st_clauses (finalize_node st) = st_clauses st"
  "st_comparisons (finalize_node st) = st_comparisons st"
  "\<exists>res. st_result (finalize_node st) = Some res \<and> rr_summary res = st_summary st
     \<and> rr_documents res = st_documents st \<and> rr_extracted_clauses res = st_clauses st
     \<and> rr_comparisons res = st_comparisons st"
  by (simp_all add: finalize_node_def)

lemma clause_valid_iff:
  "clause_valid c \<longleftrightarrow>
     20 < length (py_strip (clause_text c)) \<and> (\<exists>v. confidence_score c = Some v \<and> 1 / 2 < v)"
  by (auto simp: clause_valid_def split: option.splits)

text \<open>
  C8. Every clause in the context after the Extract stage has text that, stripped of
  surrounding whitespace, is longer than 20 characters, and a confidence that is present
  and above 0.5. The validation pass keeps exactly the clauses that pass both checks; the
  stage stores what the pass keeps and records no error.
\<close>

theorem validated_clauses_meet_thresholds:
  "(\<forall>c\<in>set (st_clauses (extract_node P L st)).
       20 < length (py_strip (clause_text c))
       \<and> (\<exists>v. confidence_score c = Some v \<and> 1 / 2 < v))
   \<and> validate_clauses cls
       = filter (\<lambda>c. 20 < length (py_strip (clause_text c))
                     \<and> (\<exists>v. confidence_score c = Some v \<and> 1 / 2 < v)) cls
   \<and> st_clauses (extract_node P L st)
       = validate_clauses (concat (map (extract_from_document P L) (st_documents st)))
   \<and> st_error (extract_node P L st) = st_error st
   \<and> st_status (extract_node P L st) = EXTRACTING"
proof -
  have f: "validate_clauses xs
       = filter (\<lambda>c. 20 < length (py_strip (clause_text c))
                     \<and> (\<exists>v. confidence_score c = Some v \<and> 1 / 2 < v)) xs" for xs
    unfolding validate_clauses_def by (rule filter_cong) (simp_all add: clause_valid_iff)
  have "\<forall>c\<in>set (validate_clauses xs).
       20 < length (py_strip (clause_text c))
       \<and> (\<exists>v. confidence_score c = Some v \<and> 1 / 2 < v)" for xs
    unfolding f by simp
  then show ?thesis
    using f [of cls] by (simp add: extract_node_fields)
qed

theorem validated_clauses_meet_thresholds_witness:
  "(\<exists>c. st_clauses
          (extract_node
             (const_providers (Inr None) (Inr (''[x]\<newline>'' @ ex_clause_line)) (Inr [])
                (Inr []))
             ex_lib ((initial_state ex_query) \<lparr> st_documents := [ex_document] \<rparr>)) = [c]
        \<and> confidence_score c = Some (3 / 5)
        \<and> 20 < length (py_strip (clause_text c)))
   \<and> validate_clauses
        [ex_clause ''safety'' ''EU'',
         (ex_clause ''safety'' ''EU'') \<lparr> confidence_score := Some (1 / 2) \<rparr>,
         (ex_clause ''safety'' ''EU'') \<lparr> confidence_score := None \<rparr>,
         (ex_clause ''safety'' ''EU'') \<lparr> clause_text := ''  Systems must be safe   '' \<rparr>]
       = [ex_clause ''safety'' ''EU'']"
proof -
  let ?P = "const_providers (Inr None) (Inr (''[x]\<newline>'' @ ex_clause_line)) (Inr [])
              (Inr [])"
  let ?st = "(initial_state ex_query) \<lparr> st_documents := [ex_document] \<rparr>"
  let ?cls = "[ex_clause ''safety'' ''EU'',
         (ex_clause ''safety'' ''EU'') \<lparr> confidence_score := Some (1 / 2) \<rparr>,
         (ex_clause ''safety'' ''EU'') \<lparr> confidence_score := None \<rparr>,
         (ex_clause ''safety'' ''EU'') \<lparr> clause_text := ''  Systems must be safe   '' \<rparr>]"
  have ev: "map confidence_score (st_clauses (extract_node ?P ex_lib ?st)) = [Some (3 / 5)]"
    by code_simp
  then obtain c where c: "st_clauses (extract_node ?P ex_lib ?st) = [c]"
    and k: "confidence_score c = Some (3 / 5)"
    by (auto simp: map_eq_Cons_conv)
  note th = validated_clauses_meet_thresholds [of ?P ex_lib ?st ?cls]
  from th c have l: "20 < length (py_strip (clause_text c))" by simp
  have v: "validate_clauses ?cls = [ex_clause ''safety'' ''EU'']"
    by code_simp
  have first: "\<exists>c. st_clauses (extract_node ?P ex_lib ?st) = [c]
        \<and> confidence_score c = Some (3 / 5)
        \<and> 20 < length (py_strip (clause_text c))"
    by (rule exI [of _ c], intro conjI, rule c, rule k, rule l)
  show ?thesis by (rule conjI [OF first v])
qed


lemma search_node_ok:
  assumes "search_documents P (st_query st) (Some (st_regions st)) (Some (st_document_types st))
             = Inr docs"
  shows "st_documents (search_node P st)
           = (if st_max_documents st \<noteq> 0 then py_take (st_max_documents st) docs else docs)"
    and "st_error (search_node P st) = st_error st"
    and "st_status (search_node P st) = SEARCHING"
  using assms by (simp_all add: search_node_def Let_def)

lemma search_node_failed:
  assumes "search_documents P (st_query st) (Some (st_regions st)) (Some (st_document_types st))
             = Inl e"
  shows "st_error (search_node P st) = Some (''Search failed: '' @ str_exn e)"
    and "st_status (search_node P st) = FAILED"
    and "st_documents (search_node P st) = st_documents st"
  using assms by (simp_all add: search_node_def Let_def)

lemma initial_state_fields:
  "st_query (initial_state rq) = rq_query rq"
  "st_error (initial_state rq) = None"
  "st_documents (initial_state rq) = []"
  "st_status (initial_state rq) = PENDING"
  by (simp_all add: initial_state_def)

text \<open>
  C9. A query whose \<open>max_documents\<close> is absent or 0 starts the run with a maximum of 10:
  the Search stage then keeps the first 10 of the documents the agent returns (all of
  them when there are fewer), so it keeps some document whenever the agent returns one.
  No query starts a run with a maximum of 0.
\<close>

theorem zero_max_documents_means_ten:
  "((rq_max_documents rq = None \<or> rq_max_documents rq = Some 0) \<longrightarrow>
       st_max_documents (initial_state rq) = 10
       \<and> (search_documents P (rq_query rq) (Some (st_regions (initial_state rq)))
              (Some (st_document_types (initial_state rq))) = Inr docs \<longrightarrow>
            st_documents (search_node P (initial_state rq)) = take 10 docs
            \<and> length (st_documents (search_node P (initial_state rq))) \<le> 10
            \<and> (docs \<noteq> [] \<longrightarrow> st_documents (search_node P (initial_state rq)) \<noteq> [])))
   \<and> st_max_documents (initial_state rq) \<noteq> 0"
proof -
  have nz: "st_max_documents (initial_state rq) \<noteq> 0"
    by (simp add: initial_state_def split: option.splits)
  have ten: "st_max_documents (initial_state rq) = 10"
    if "rq_max_documents rq = None \<or> rq_max_documents rq = Some 0"
    using that by (auto simp: initial_state_def)
  have docs: "st_documents (search_node P (initial_state rq)) = take 10 docs"
    if "rq_max_documents rq = None \<or> rq_max_documents rq = Some 0"
      and "search_documents P (rq_query rq) (Some (st_regions (initial_state rq)))
              (Some (st_document_types (initial_state rq))) = Inr docs"
  proof -
    have "search_documents P (st_query (initial_state rq))
            (Some (st_regions (initial_state rq)))
            (Some (st_document_types (initial_state rq))) = Inr docs"
      using that(2) by (simp add: initial_state_fields)
    from search_node_ok(1) [OF this] ten [OF that(1)]
    show ?thesis by (simp add: py_take_def)
  qed
  have ne: "take 10 docs \<noteq> []" if "docs \<noteq> []"
    using that by (cases docs) simp_all
  show ?thesis using nz ten docs ne by auto
qed

theorem zero_max_documents_means_ten_witness:
  "st_max_documents (initial_state (ex_query \<lparr> rq_max_documents := Some 0 \<rparr>)) = 10
   \<and> length (st_documents
        (search_node
           (const_providers
              (Inr (Some (replicate 11
                 \<lparr> r_title = None, r_url = None, r_content = None, r_source = None,
                   r_score = None, r_published_date = False \<rparr>)))
              (Inr []) (Inr []) (Inr []))
           (initial_state (ex_query \<lparr> rq_max_documents := Some 0 \<rparr>)))) = 10"
proof -
  let ?r = "\<lparr> r_title = None, r_url = None, r_content = None, r_source = None,
             r_score = None, r_published_date = False \<rparr>"
  let ?P = "const_providers (Inr (Some (replicate 11 ?r))) (Inr []) (Inr []) (Inr [])"
  let ?rq = "ex_query \<lparr> rq_max_documents := Some 0 \<rparr>"
  have z: "rq_max_documents ?rq = None \<or> rq_max_documents ?rq = Some 0"
    by simp
  have "length (process_search_results (replicate 11 ?r) (Some [])) = 11"
    by (simp add: process_search_results_def)
  then obtain docs where sd: "search_documents ?P (rq_query ?rq)
        (Some (st_regions (initial_state ?rq)))
        (Some (st_document_types (initial_state ?rq))) = Inr docs"
    and len: "length docs = 11"
    by (simp add: search_documents_def perform_search_def const_providers_def
        initial_state_def ex_query_def)
  note th = zero_max_documents_means_ten [of ?rq ?P docs]
  from th z have a: "st_max_documents (initial_state ?rq) = 10" by blast
  from th z sd have "st_documents (search_node ?P (initial_state ?rq)) = take 10 docs"
    by blast
  then have b: "length (st_documents (search_node ?P (initial_state ?rq))) = 10"
    using len by simp
  show ?thesis by (rule conjI [OF a b])
qed


lemma summarize_node_failed:
  assumes "call_ollama_summary P (st_query st) (st_documents st) (st_clauses st)
             (st_comparisons st) = Inl e"
  shows "st_error (summarize_node P L st) = Some (''Summarization failed: '' @ str_exn e)"
    and "st_status (summarize_node P L st) = FAILED"
    and "st_summary (summarize_node P L st) = st_summary st"
  using assms by (simp_all add: summarize_node_def generate_summary_def Let_def)

lemma search_documents_failed:
  "tavily_search P q rs ts = Inl e \<Longrightarrow> search_documents P q rs ts = Inl e"
  by (simp add: search_documents_def perform_search_def)

lemma should_continue_error:
  "st_error st = Some (a # m) \<Longrightarrow> should_continue st = ''error''"
  by (simp add: should_continue_def)

text \<open>
  C1, as amended. A provider error in the Search stage or in the Summarize stage is
  recorded by the stage's node as the message prefixed with the stage's failure text, with
  status Failed, it leaves the stage's output unset, and the routing function then answers
  "error". A provider error in the Extract stage's call for one document gives no clauses
  for that document, and one in the Compare stage's call for one topic gives no Comparison
  for that topic; neither stage records an error.
\<close>

theorem provider_errors_by_stage:
  "(tavily_search P (st_query st) (Some (st_regions st)) (Some (st_document_types st)) = Inl e
      \<longrightarrow> st_error (search_node P st) = Some (''Search failed: '' @ str_exn e)
          \<and> st_status (search_node P st) = FAILED
          \<and> st_documents (search_node P st) = st_documents st
          \<and> should_continue (search_node P st) = ''error'')
   \<and> (call_ollama_summary P (st_query st) (st_documents st) (st_clauses st)
         (st_comparisons st) = Inl e
      \<longrightarrow> st_error (summarize_node P L st) = Some (''Summarization failed: '' @ str_exn e)
          \<and> st_status (summarize_node P L st) = FAILED
          \<and> st_summary (summarize_node P L st) = st_summary st
          \<and> should_continue (summarize_node P L st) = ''error'')
   \<and> (ollama_extract P doc = Inl e \<longrightarrow> extract_from_document P L doc = [])
   \<and> (ollama_compare P tp jc = Inl e \<longrightarrow> compare_topic P L tp jc = None)
   \<and> st_error (extract_node P L st) = st_error st
   \<and> st_error (compare_node P L st) = st_error st"
proof -
  have search: "st_error (search_node P st) = Some (''Search failed: '' @ str_exn e)
          \<and> st_status (search_node P st) = FAILED
          \<and> st_documents (search_node P st) = st_documents st
          \<and> should_continue (search_node P st) = ''error''"
    if "tavily_search P (st_query st) (Some (st_regions st)) (Some (st_document_types st))
          = Inl e"
    using search_node_failed [OF search_documents_failed [OF that]]
    by (simp add: should_continue_def)
  have summ: "st_error (summarize_node P L st) = Some (''Summarization failed: '' @ str_exn e)
          \<and> st_status (summarize_node P L st) = FAILED
          \<and> st_summary (summarize_node P L st) = st_summary st
          \<and> should_continue (summarize_node P L st) = ''error''"
    if "call_ollama_summary P (st_query st) (st_documents st) (st_clauses st)
         (st_comparisons st) = Inl e"
    using summarize_node_failed [OF that] by (simp add: should_continue_def)
  have ext: "extract_from_document P L doc = []" if "ollama_extract P doc = Inl e"
    using that by (simp add: extract_from_document_def)
  have cmp: "compare_topic P L tp jc = None" if "ollama_compare P tp jc = Inl e"
    using that by (simp add: compare_topic_def)
  show ?thesis
    using search summ ext cmp
    by (simp add: extract_node_fields compare_node_fields)
qed

theorem provider_errors_by_stage_witness:
  "st_error
     (search_node (const_providers (Inl (Exception ''timeout'')) (Inr []) (Inr []) (Inr ''{}''))
        (initial_state ex_query)) = Some ''Search failed: timeout''
   \<and> st_status
       (search_node (const_providers (Inl (Exception ''timeout'')) (Inr []) (Inr []) (Inr ''{}''))
          (initial_state ex_query)) = FAILED
   \<and> st_error
       (summarize_node
          (const_providers (Inr None) (Inl (Exception ''timeout'')) (Inl (Exception ''timeout''))
             (Inl (Exception ''timeout'')))
          ex_lib (initial_state ex_query)) = Some ''Summarization failed: timeout''
   \<and> extract_from_document
       (const_providers (Inr None) (Inl (Exception ''timeout'')) (Inl (Exception ''timeout''))
          (Inl (Exception ''timeout'')))
       ex_lib ex_document = []
   \<and> compare_topic
       (const_providers (Inr None) (Inl (Exception ''timeout'')) (Inl (Exception ''timeout''))
          (Inl (Exception ''timeout'')))
       ex_lib ''safety'' [(''EU'', []), (''US'', [])] = None"
proof -
  let ?P = "const_providers (Inl (Exception ''timeout'')) (Inr []) (Inr []) (Inr ''{}'')"
  let ?Q = "const_providers (Inr None) (Inl (Exception ''timeout''))
              (Inl (Exception ''timeout'')) (Inl (Exception ''timeout''))"
  let ?jc = "[(''EU'', []), (''US'', [])] :: jurisdiction_clauses"
  let ?e = "Exception ''timeout''"
  let ?st = "initial_state ex_query"
  note thP = provider_errors_by_stage [of ?P ?st ?e ex_lib]
  note thQ = provider_errors_by_stage [of ?Q ?st ?e ex_lib ex_document "''safety''" ?jc]
  have p: "tavily_search ?P (st_query ?st) (Some (st_regions ?st))
             (Some (st_document_types ?st)) = Inl ?e"
    by (simp add: const_providers_def)
  from thP p have a: "st_error (search_node ?P ?st) = Some ''Search failed: timeout''"
    and b: "st_status (search_node ?P ?st) = FAILED"
    by simp_all
  have q0: "call_ollama_summary ?Q (st_query ?st) (st_documents ?st) (st_clauses ?st)
              (st_comparisons ?st) = Inl ?e"
    by (simp add: call_ollama_summary_def const_providers_def initial_state_def)
  from thQ q0 have c: "st_error (summarize_node ?Q ex_lib ?st)
                         = Some ''Summarization failed: timeout''"
    by simp
  have q1: "ollama_extract ?Q ex_document = Inl ?e"
    and q2: "ollama_compare ?Q ''safety'' ?jc = Inl ?e"
    by (simp_all add: const_providers_def)
  from thQ q1 have d: "extract_from_document ?Q ex_lib ex_document = []" by blast
  from thQ q2 have f: "compare_topic ?Q ex_lib ''safety'' ?jc = None" by blast
  show ?thesis by (rule conjI [OF a conjI [OF b conjI [OF c conjI [OF d f]]]])
qed

text \<open>
  C1 as stated fails: the context holds one document, the text-generation provider raises
  on it, and the Extract stage finishes with no clause, no error and its progress at 1; the
  routing function answers "continue".
\<close>

theorem extract_provider_error_is_absorbed:
  "ollama_extract
     (const_providers (Inr None) (Inl (Exception ''timeout'')) (Inr []) (Inr []))
     ex_document = Inl (Exception ''timeout'')
   \<and> st_clauses
       (extract_node (const_providers (Inr None) (Inl (Exception ''timeout'')) (Inr []) (Inr []))
          ex_lib ((initial_state ex_query) \<lparr> st_documents := [ex_document] \<rparr>)) = []
   \<and> st_error
       (extract_node (const_providers (Inr None) (Inl (Exception ''timeout'')) (Inr []) (Inr []))
          ex_lib ((initial_state ex_query) \<lparr> st_documents := [ex_document] \<rparr>)) = None
   \<and> st_status
       (extract_node (const_providers (Inr None) (Inl (Exception ''timeout'')) (Inr []) (Inr []))
          ex_lib ((initial_state ex_query) \<lparr> st_documents := [ex_document] \<rparr>)) = EXTRACTING
   \<and> st_progress
       (extract_node (const_providers (Inr None) (Inl (Exception ''timeout'')) (Inr []) (Inr []))
          ex_lib ((initial_state ex_query) \<lparr> st_documents := [ex_document] \<rparr>))
       ''extract_agent'' = Some 1
   \<and> should_continue
       (extract_node (const_providers (Inr None) (Inl (Exception ''timeout'')) (Inr []) (Inr []))
          ex_lib ((initial_state ex_query) \<lparr> st_documents := [ex_document] \<rparr>))
     = ''continue''"
  by code_simp














lemma parse_summary_fallback:
  "parse_fails L (CHR ''{'') (CHR ''}'') r \<Longrightarrow>
     parse_summary_response L r q docs cls cmps = Inr (create_fallback_summary q docs cls cmps)"
  by (auto simp: parse_fails_def no_candidate_def candidate_def parse_summary_response_def
      Let_def)

lemma summarize_node_fallback:
  assumes "call_ollama_summary P (st_query st) (st_documents st) (st_clauses st)
             (st_comparisons st) = Inr r"
    and "parse_fails L (CHR ''{'') (CHR ''}'') r"
  shows "st_summary (summarize_node P L st)
           = Some (create_fallback_summary (st_query st) (st_documents st) (st_clauses st)
                (st_comparisons st))"
    and "st_error (summarize_node P L st) = st_error st"
    and "st_documents (summarize_node P L st) = st_documents st"
    and "st_clauses (summarize_node P L st) = st_clauses st"
    and "st_comparisons (summarize_node P L st) = st_comparisons st"
  using assms parse_summary_fallback [OF assms(2)]
  by (simp_all add: summarize_node_def generate_summary_def Let_def)

lemma summarize_node_status:
  assumes "call_ollama_summary P (st_query st) (st_documents st) (st_clauses st)
             (st_comparisons st) = Inr r"
    and "parse_fails L (CHR ''{'') (CHR ''}'') r"
  shows "st_status (summarize_node P L st) = SUMMARIZING"
  using assms parse_summary_fallback [OF assms(2)]
  by (simp add: summarize_node_def generate_summary_def Let_def)

lemma parse_summary_rejected:
  assumes "\<not> no_candidate (CHR ''{'') (CHR ''}'') r"
    and "json_loads L (candidate (CHR ''{'') (CHR ''}'') r) = Some (JObj d)"
    and "val_str L (dict_get d ''executive_summary'' (JStr [])) = None
         \<or> val_str_list L (dict_get d ''key_findings'' (JArr [])) = None
         \<or> val_str_list L (dict_get d ''recommendations'' (JArr [])) = None
         \<or> val_str L (dict_get d ''methodology'' (JStr [])) = None
         \<or> val_str_list L (dict_get d ''limitations'' (JArr [])) = None"
  shows "parse_summary_response L r q docs cls cmps = Inl (Exception (error_text L (JObj d)))"
  using assms
  by (auto simp: parse_summary_response_def no_candidate_def candidate_def Let_def
      split: option.splits)

text \<open>
  C6, as amended. In the Summarize stage, a response that holds no decodable object (no
  candidate between braces, or one that \<open>json.loads\<close> rejects) gives the fallback Summary
  built from the query and the context's documents, clauses and comparisons, whose
  executive summary contains the decimal counts of all three; the stage records no error,
  and the finalize step then ends the context in Completed with that Summary in the
  result. A response that decodes to an object that the Summary model rejects gives no
  fallback: the node records the stage's failure, with status Failed and no Summary.
\<close>

theorem summary_fallback_without_object:
  "(call_ollama_summary P (st_query st) (st_documents st) (st_clauses st) (st_comparisons st)
      = Inr r
    \<and> parse_fails L (CHR ''{'') (CHR ''}'') r
    \<longrightarrow> st_summary (summarize_node P L st)
          = Some (create_fallback_summary (st_query st) (st_documents st) (st_clauses st)
                   (st_comparisons st))
        \<and> st_error (summarize_node P L st) = st_error st
        \<and> st_status (summarize_node P L st) = SUMMARIZING
        \<and> st_status (finalize_node (summarize_node P L st)) = COMPLETED
        \<and> (\<exists>res. st_result (finalize_node (summarize_node P L st)) = Some res
              \<and> rr_summary res
                  = Some (create_fallback_summary (st_query st) (st_documents st)
                           (st_clauses st) (st_comparisons st))))
   \<and> sublist (str_nat (length docs))
        (executive_summary (create_fallback_summary q docs cls cmps))
   \<and> sublist (str_nat (length cls))
        (executive_summary (create_fallback_summary q docs cls cmps))
   \<and> sublist (str_nat (length cmps))
        (executive_summary (create_fallback_summary q docs cls cmps))
   \<and> (call_ollama_summary P (st_query st) (st_documents st) (st_clauses st)
         (st_comparisons st) = Inr r
       \<and> \<not> no_candidate (CHR ''{'') (CHR ''}'') r
       \<and> json_loads L (candidate (CHR ''{'') (CHR ''}'') r) = Some (JObj d)
       \<and> (val_str L (dict_get d ''executive_summary'' (JStr [])) = None
          \<or> val_str_list L (dict_get d ''key_findings'' (JArr [])) = None
          \<or> val_str_list L (dict_get d ''recommendations'' (JArr [])) = None
          \<or> val_str L (dict_get d ''methodology'' (JStr [])) = None
          \<or> val_str_list L (dict_get d ''limitations'' (JArr [])) = None)
      \<longrightarrow> st_error (summarize_node P L st)
            = Some (''Summarization failed: '' @ error_text L (JObj d))
          \<and> st_status (summarize_node P L st) = FAILED
          \<and> st_summary (summarize_node P L st) = st_summary st)"
proof -
  let ?fb = "create_fallback_summary (st_query st) (st_documents st) (st_clauses st)
               (st_comparisons st)"
  have a: "st_summary (summarize_node P L st) = Some ?fb
        \<and> st_error (summarize_node P L st) = st_error st
        \<and> st_status (summarize_node P L st) = SUMMARIZING
        \<and> st_status (finalize_node (summarize_node P L st)) = COMPLETED
        \<and> (\<exists>res. st_result (finalize_node (summarize_node P L st)) = Some res
              \<and> rr_summary res = Some ?fb)"
    if call: "call_ollama_summary P (st_query st) (st_documents st) (st_clauses st)
                (st_comparisons st) = Inr r"
      and pf: "parse_fails L (CHR ''{'') (CHR ''}'') r"
  proof -
    note sn = summarize_node_fallback [OF call pf] summarize_node_status [OF call pf]
    obtain res where "st_result (finalize_node (summarize_node P L st)) = Some res"
      "rr_summary res = st_summary (summarize_node P L st)"
      using finalize_node_fields(7) [of "summarize_node P L st"] by blast
    then show ?thesis using sn by (simp add: finalize_node_fields)
  qed
  have b: "st_error (summarize_node P L st)
            = Some (''Summarization failed: '' @ error_text L (JObj d))
          \<and> st_status (summarize_node P L st) = FAILED
          \<and> st_summary (summarize_node P L st) = st_summary st"
    if call: "call_ollama_summary P (st_query st) (st_documents st) (st_clauses st)
                (st_comparisons st) = Inr r"
      and nc: "\<not> no_candidate (CHR ''{'') (CHR ''}'') r"
      and jl: "json_loads L (candidate (CHR ''{'') (CHR ''}'') r) = Some (JObj d)"
      and rj: "val_str L (dict_get d ''executive_summary'' (JStr [])) = None
          \<or> val_str_list L (dict_get d ''key_findings'' (JArr [])) = None
          \<or> val_str_list L (dict_get d ''recommendations'' (JArr [])) = None
          \<or> val_str L (dict_get d ''methodology'' (JStr [])) = None
          \<or> val_str_list L (dict_get d ''limitations'' (JArr [])) = None"
    using call parse_summary_rejected [OF nc jl rj]
    by (simp add: summarize_node_def generate_summary_def Let_def)
  show ?thesis
    using a b exec_summary_counts [of docs q cls cmps] by blast
qed

theorem summary_fallback_without_object_witness:
  "parse_fails ex_lib (CHR ''{'') (CHR ''}'') ''not json at all''
   \<and> st_summary
       (summarize_node (const_providers (Inr None) (Inr []) (Inr []) (Inr ''not json at all''))
          ex_lib ((initial_state ex_query) \<lparr> st_documents := [ex_document] \<rparr>))
     = Some (create_fallback_summary ''AI policy'' [ex_document] [] [])
   \<and> st_status
       (finalize_node
          (summarize_node (const_providers (Inr None) (Inr []) (Inr []) (Inr ''not json at all''))
             ex_lib ((initial_state ex_query) \<lparr> st_documents := [ex_document] \<rparr>)))
     = COMPLETED
   \<and> sublist ''covered 1 documents and extracted 0 legal clauses''
       (executive_summary (create_fallback_summary ''AI policy'' [ex_document] [] []))
   \<and> st_status
       (summarize_node (const_providers (Inr None) (Inr []) (Inr []) (Inr ex_bad_summary))
          ex_lib_obj (initial_state ex_query))
     = FAILED"
proof -
  let ?P = "const_providers (Inr None) (Inr []) (Inr []) (Inr ''not json at all'')"
  let ?Q = "const_providers (Inr None) (Inr []) (Inr []) (Inr ex_bad_summary)"
  let ?st = "(initial_state ex_query) \<lparr> st_documents := [ex_document] \<rparr>"
  let ?s0 = "initial_state ex_query"
  let ?d = "[(''key_findings'', JNum 1)]"
  have fields: "st_query ?st = ''AI policy''" "st_documents ?st = [ex_document]"
    "st_clauses ?st = []" "st_comparisons ?st = []"
    by (simp_all add: initial_state_def ex_query_def)
  have h1: "call_ollama_summary ?P (st_query ?st) (st_documents ?st) (st_clauses ?st)
              (st_comparisons ?st) = Inr ''not json at all''"
    by (simp add: fields call_ollama_summary_def const_providers_def)
  have h2: "parse_fails ex_lib (CHR ''{'') (CHR ''}'') ''not json at all''"
    by code_simp
  note th = summary_fallback_without_object [of ?P ?st "''not json at all''" ex_lib]
  from th h1 h2 have a: "st_summary (summarize_node ?P ex_lib ?st)
     = Some (create_fallback_summary ''AI policy'' [ex_document] [] [])"
    and b: "st_status (finalize_node (summarize_node ?P ex_lib ?st)) = COMPLETED"
    by (simp_all add: fields)
  have c: "sublist ''covered 1 documents and extracted 0 legal clauses''
       (executive_summary (create_fallback_summary ''AI policy'' [ex_document] [] []))"
    by code_simp
  have g1: "call_ollama_summary ?Q (st_query ?s0) (st_documents ?s0) (st_clauses ?s0)
              (st_comparisons ?s0) = Inr ex_bad_summary"
    by (simp add: call_ollama_summary_def const_providers_def initial_state_def)
  have g2: "\<not> no_candidate (CHR ''{'') (CHR ''}'') ex_bad_summary"
    by code_simp
  have g3: "json_loads ex_lib_obj (candidate (CHR ''{'') (CHR ''}'') ex_bad_summary)
              = Some (JObj ?d)"
    by code_simp
  have g4: "val_str_list ex_lib_obj (dict_get ?d ''key_findings'' (JArr [])) = None"
    by (simp add: val_str_list_def dict_get_def)
  from summary_fallback_without_object
         [of ?Q ?s0 ex_bad_summary ex_lib_obj _ _ _ _ ?d] g1 g2 g3 g4
  have e: "st_status (summarize_node ?Q ex_lib_obj ?s0) = FAILED"
    by blast
  show ?thesis by (rule conjI [OF h2 conjI [OF a conjI [OF b conjI [OF c e]]]])
qed

text \<open>
  C6 as stated fails: the response decodes to an object whose \<open>key_findings\<close> is a
  number, which the Summary model rejects, so the response cannot be parsed as a Summary;
  the stage gives no fallback, and the node ends with status Failed, no Summary, and the
  routing function answering "error".
\<close>

theorem rejected_summary_object_fails_the_stage:
  "json_loads ex_lib_obj (candidate (CHR ''{'') (CHR ''}'') ex_bad_summary)
     = Some (JObj [(''key_findings'', JNum 1)])
   \<and> val_str_list ex_lib_obj (JNum 1) = None
   \<and> st_status
       (summarize_node (const_providers (Inr None) (Inr []) (Inr []) (Inr ex_bad_summary))
          ex_lib_obj (initial_state ex_query))
     = FAILED
   \<and> st_summary
       (summarize_node (const_providers (Inr None) (Inr []) (Inr []) (Inr ex_bad_summary))
          ex_lib_obj (initial_state ex_query))
     = None
   \<and> should_continue
       (summarize_node (const_providers (Inr None) (Inr []) (Inr []) (Inr ex_bad_summary))
          ex_lib_obj (initial_state ex_query))
     = ''error''"
  by code_simp

end
